theory Spec2Isabelle
  imports Main
begin

section \<open>Configuration objects and the domain model\<close>

text \<open>
  The model classes of cruddl (\<^verbatim>\<open>Field\<close>, the type classes, \<^verbatim>\<open>Model\<close>) refer to each other
  through object references. Here they are an arena: a model is the list of its type
  configurations, a type object is a configuration together with its position in the model,
  and a field object is a field configuration together with its declaring type and its position
  in that type. JavaScript's \<^verbatim>\<open>===\<close> on two such objects is HOL equality on these values.
\<close>

datatype TypeKind = SCALAR | ENUM | VALUE_OBJECT | ENTITY_EXTENSION | CHILD_ENTITY | ROOT_ENTITY

text \<open>An AST node is only ever passed on as the location of a message: an opaque handle.\<close>

type_synonym ASTNode = nat

text \<open>
  \<^verbatim>\<open>AnyValue\<close>: a JSON-like JavaScript value. \<^verbatim>\<open>null\<close> and \<^verbatim>\<open>undefined\<close> are two values;
  the sources compare with both \<^verbatim>\<open>===\<close> and \<^verbatim>\<open>==\<close>. The content of a number is never
  inspected by the sources.
\<close>

datatype AnyValue =
    Undefined
  | Null
  | Boolean bool
  | Number int
  | String string
  | Array "AnyValue list"
  | Object "(string \<times> AnyValue) list"

text \<open>
  The configuration of explicit roles is handed to the class \<^verbatim>\<open>RolesSpecifier\<close>, which is not
  among the sources; of its content \<^verbatim>\<open>Field\<close> reads the AST node only.
\<close>

record RolesConfig =
  rolesASTNode :: "ASTNode option"

record PermissionsConfig =
  permissionProfileName :: "string option"
  permissionProfileNameAstNode :: "ASTNode option"
  roles :: "RolesConfig option"

text \<open>
  \<^verbatim>\<open>FieldConfig & { isSystemField?: boolean }\<close>, as the constructor of \<^verbatim>\<open>Field\<close> reads it.
  The optional booleans are read with \<^verbatim>\<open>|| false\<close>, so an absent one is \<open>False\<close>; an optional
  name or node is an \<open>option\<close>; \<^verbatim>\<open>calcMutationOperators\<close> is the array the constructor turns
  into a set (iteration of that set follows the order of first insertion). A default value
  that is \<^verbatim>\<open>undefined\<close> is \<open>None\<close>.
\<close>

record FieldConfig =
  name :: string
  typeName :: string
  typeNameAST :: "ASTNode option"
  astNode :: "ASTNode option"
  defaultValue :: "AnyValue option"
  defaultValueASTNode :: "ASTNode option"
  isList :: bool
  isReference :: bool
  isRelation :: bool
  isSystemField :: bool
  calcMutationOperators :: "string list"
  permissions :: "PermissionsConfig option"
  inverseOfFieldName :: "string option"
  inverseOfASTNode :: "ASTNode option"

record TypeConfig =
  name :: string
  kind :: TypeKind
  fieldConfigs :: "FieldConfig list"
  keyFieldName :: "string option"

text \<open>
  A type object. \<open>ident\<close> is the position of the type in the model; the fallback object that
  stands for an unresolved type name is no type of the model and has \<open>ident = None\<close>.
\<close>

record Type =
  ident :: "nat option"
  config :: TypeConfig

record Field =
  declaringType :: Type
  position :: nat
  input :: FieldConfig

text \<open>
  Modelled from the spec: the class \<^verbatim>\<open>Model\<close> is not among the sources. The spec (sections 3
  and 6) has the model built once from an ordered collection of type declarations, with type
  names resolved lazily against the whole collection, possibly to an invalid type, and with a
  lookup of permission profiles by name. The fallback for an unresolved name is a component of
  the model here, since nothing says what it looks like.
\<close>

record Model =
  types :: "TypeConfig list"
  invalidType :: "string \<Rightarrow> TypeConfig"
  permissionProfiles :: "string list"

definition modelTypes :: "Model \<Rightarrow> Type list" where
  "modelTypes m = map (\<lambda>(i, c). \<lparr>ident = Some i, config = c\<rparr>) (enumerate 0 (types m))"

text \<open>
  Modelled from the spec: \<^verbatim>\<open>Model.getType\<close> and \<^verbatim>\<open>Model.getTypeOrFallback\<close> are not among the
  sources; they resolve a type name against the whole collection. Of two types with one name
  the later one is found, as in a JavaScript \<^verbatim>\<open>Map\<close> built from the list.
\<close>

definition getType :: "Model \<Rightarrow> string \<Rightarrow> Type option" where
  "getType m n = find (\<lambda>t. TypeConfig.name (config t) = n) (rev (modelTypes m))"

definition getTypeOrFallback :: "Model \<Rightarrow> string \<Rightarrow> Type" where
  "getTypeOrFallback m n =
     (case getType m n of
        Some t \<Rightarrow> t
      | None \<Rightarrow> \<lparr>ident = None, config = invalidType m n\<rparr>)"

text \<open>
  The kind flags of the type classes; \<^verbatim>\<open>enum-type.ts\<close> shows them for one class: every flag
  is a constant of the class, and \<^verbatim>\<open>isObjectType\<close> is false for an enum type.
  Modelled from the spec: the other type classes are not among the sources; their flags follow
  the tag \<^verbatim>\<open>kind\<close> (section 3: a type is tagged by its kind), and the object types are the
  four kinds that own fields.
\<close>

definition isRootEntityType :: "Type \<Rightarrow> bool" where
  "isRootEntityType t = (kind (config t) = ROOT_ENTITY)"

definition isChildEntityType :: "Type \<Rightarrow> bool" where
  "isChildEntityType t = (kind (config t) = CHILD_ENTITY)"

definition isEntityExtensionType :: "Type \<Rightarrow> bool" where
  "isEntityExtensionType t = (kind (config t) = ENTITY_EXTENSION)"

definition isValueObjectType :: "Type \<Rightarrow> bool" where
  "isValueObjectType t = (kind (config t) = VALUE_OBJECT)"

definition isScalarType :: "Type \<Rightarrow> bool" where
  "isScalarType t = (kind (config t) = SCALAR)"

definition isEnumType :: "Type \<Rightarrow> bool" where
  "isEnumType t = (kind (config t) = ENUM)"

definition isObjectType :: "Type \<Rightarrow> bool" where
  "isObjectType t = (kind (config t) \<noteq> SCALAR \<and> kind (config t) \<noteq> ENUM)"

text \<open>
  Modelled from the spec: the object-type classes are not among the sources. A type owns an
  ordered collection of fields (section 3); \<^verbatim>\<open>getField\<close> looks one up by name (the later of two
  fields with one name, as for types); a root-entity type owns a designated key field.
\<close>

definition Type_fields :: "Type \<Rightarrow> Field list" where
  "Type_fields t =
     map (\<lambda>(i, c). \<lparr>declaringType = t, position = i, input = c\<rparr>) (enumerate 0 (fieldConfigs (config t)))"

definition getField :: "Type \<Rightarrow> string \<Rightarrow> Field option" where
  "getField t n = find (\<lambda>f. FieldConfig.name (input f) = n) (rev (Type_fields t))"

definition keyField :: "Type \<Rightarrow> Field option" where
  "keyField t =
     (if isRootEntityType t
      then (case keyFieldName (config t) of None \<Rightarrow> None | Some n \<Rightarrow> getField t n)
      else None)"

subsection \<open>The getters of \<^verbatim>\<open>Field\<close>\<close>

definition Field_type :: "Model \<Rightarrow> Field \<Rightarrow> Type" where
  "Field_type m f = getTypeOrFallback m (typeName (input f))"

definition hasValidType :: "Model \<Rightarrow> Field \<Rightarrow> bool" where
  "hasValidType m f = (getType m (typeName (input f)) \<noteq> None)"

definition isReadOnly :: "Field \<Rightarrow> bool" where
  "isReadOnly f = isSystemField (input f)"

definition inverseOf :: "Model \<Rightarrow> Field \<Rightarrow> Field option" where
  "inverseOf m f =
     (case inverseOfFieldName (input f) of
        None \<Rightarrow> None
      | Some n \<Rightarrow>
          (let type = Field_type m f in
           if \<not> isObjectType type then None else getField type n))"

definition inverseField :: "Model \<Rightarrow> Field \<Rightarrow> Field option" where
  "inverseField m f =
     (if isObjectType (Field_type m f)
      then find (\<lambda>field. inverseOf m field = Some f) (Type_fields (Field_type m f))
      else None)"

text \<open>
  Modelled from the spec: the namespace of a type and its \<^verbatim>\<open>getPermissionProfile\<close> are not
  among the sources; the model stores the permission profiles and looks one up by name
  (sections 1 and 2). A profile is identified by its position among the profiles of the model.
\<close>

fun indexOf :: "'a \<Rightarrow> 'a list \<Rightarrow> nat option" where
  "indexOf x [] = None"
| "indexOf x (y # ys) =
     (if x = y then Some 0 else (case indexOf x ys of None \<Rightarrow> None | Some i \<Rightarrow> Some (Suc i)))"

definition getPermissionProfile :: "Model \<Rightarrow> string \<Rightarrow> nat option" where
  "getPermissionProfile m n = indexOf n (permissionProfiles m)"

definition permissionProfile :: "Model \<Rightarrow> Field \<Rightarrow> nat option" where
  "permissionProfile m f =
     (case permissions (input f) of
        None \<Rightarrow> None
      | Some p \<Rightarrow>
          (case permissionProfileName p of
             None \<Rightarrow> None
           | Some n \<Rightarrow> getPermissionProfile m n))"

section \<open>Validation\<close>

datatype Severity = INFO | WARN | ERROR

record ValidationMessage =
  severity :: Severity
  message :: string
  location :: "ASTNode option"

text \<open>
  Modelled from the spec: \<^verbatim>\<open>ValidationMessage\<close> and \<^verbatim>\<open>ValidationContext\<close> are not among the
  sources. A context is a sink to which validation appends records of a severity, a text and a
  location (section 3).
\<close>

definition ValidationMessage_error :: "string \<Rightarrow> ASTNode option \<Rightarrow> ValidationMessage" where
  "ValidationMessage_error t l = \<lparr>severity = ERROR, message = t, location = l\<rparr>"

definition ValidationMessage_warn :: "string \<Rightarrow> ASTNode option \<Rightarrow> ValidationMessage" where
  "ValidationMessage_warn t l = \<lparr>severity = WARN, message = t, location = l\<rparr>"


type_synonym ValidationContext = "ValidationMessage list"

definition addMessage :: "ValidationContext \<Rightarrow> ValidationMessage \<Rightarrow> ValidationContext" where
  "addMessage context msg = context @ [msg]"

subsection \<open>\<^verbatim>\<open>Field.validateName\<close>\<close>

text \<open>\<^verbatim>\<open>name.startsWith('_')\<close>, \<^verbatim>\<open>name.includes('_')\<close> and \<^verbatim>\<open>name.match(/^[a-z]/)\<close>.\<close>

definition startsWithUnderscore :: "string \<Rightarrow> bool" where
  "startsWithUnderscore s = (case s of [] \<Rightarrow> False | c # _ \<Rightarrow> c = CHR ''_'')"

definition includesUnderscore :: "string \<Rightarrow> bool" where
  "includesUnderscore s = (CHR ''_'' \<in> set s)"

definition matchesLowercaseInitial :: "string \<Rightarrow> bool" where
  "matchesLowercaseInitial s =
     (case s of [] \<Rightarrow> False | c # _ \<Rightarrow> c \<in> set ''abcdefghijklmnopqrstuvwxyz'')"

definition validateName :: "Field \<Rightarrow> ValidationContext \<Rightarrow> ValidationContext" where
  "validateName f context =
     (if FieldConfig.name (input f) = []
      then addMessage context (ValidationMessage_error ''Field name is empty.'' (astNode (input f)))
      else if startsWithUnderscore (FieldConfig.name (input f))
      then addMessage context
             (ValidationMessage_error ''Field names cannot start with an underscore.'' (astNode (input f)))
      else if includesUnderscore (FieldConfig.name (input f))
      then addMessage context
             (ValidationMessage_warn ''Field names should not include underscores.'' (astNode (input f)))
      else if \<not> matchesLowercaseInitial (FieldConfig.name (input f))
      then addMessage context
             (ValidationMessage_warn ''Field names should start with a lowercase character.''
                (astNode (input f)))
      else context)"

text \<open>
  The rule table as the claim words it: four rules in a fixed order, each a condition on the
  name with the severity it reports; the first rule that matches is the only one reported.
\<close>

datatype NameRule = EmptyName | LeadingUnderscore | EmbeddedUnderscore | NonLowercaseInitial

definition nameRuleOrder :: "NameRule list" where
  "nameRuleOrder = [EmptyName, LeadingUnderscore, EmbeddedUnderscore, NonLowercaseInitial]"

fun nameRuleMatches :: "NameRule \<Rightarrow> string \<Rightarrow> bool" where
  "nameRuleMatches EmptyName s = (s = [])"
| "nameRuleMatches LeadingUnderscore s = (take 1 s = ''_'')"
| "nameRuleMatches EmbeddedUnderscore s = (CHR ''_'' \<in> set s)"
| "nameRuleMatches NonLowercaseInitial s = (\<not> (s \<noteq> [] \<and> hd s \<in> set ''abcdefghijklmnopqrstuvwxyz''))"

fun nameRuleSeverity :: "NameRule \<Rightarrow> Severity" where
  "nameRuleSeverity EmptyName = ERROR"
| "nameRuleSeverity LeadingUnderscore = ERROR"
| "nameRuleSeverity EmbeddedUnderscore = WARN"
| "nameRuleSeverity NonLowercaseInitial = WARN"

fun nameRuleText :: "NameRule \<Rightarrow> string" where
  "nameRuleText EmptyName = ''Field name is empty.''"
| "nameRuleText LeadingUnderscore = ''Field names cannot start with an underscore.''"
| "nameRuleText EmbeddedUnderscore = ''Field names should not include underscores.''"
| "nameRuleText NonLowercaseInitial = ''Field names should start with a lowercase character.''"

definition firstMatchingNameRule :: "string \<Rightarrow> NameRule option" where
  "firstMatchingNameRule s = find (\<lambda>r. nameRuleMatches r s) nameRuleOrder"

definition nameDiagnostics :: "Field \<Rightarrow> ValidationMessage list" where
  "nameDiagnostics f =
     (case firstMatchingNameRule (FieldConfig.name (input f)) of
        None \<Rightarrow> []
      | Some r \<Rightarrow>
          [\<lparr>severity = nameRuleSeverity r, message = nameRuleText r, location = astNode (input f)\<rparr>])"

definition startsWithUppercase :: "string \<Rightarrow> bool" where
  "startsWithUppercase s =
     (case s of [] \<Rightarrow> False | c # _ \<Rightarrow> c \<in> set ''ABCDEFGHIJKLMNOPQRSTUVWXYZ'')"

section \<open>Relations\<close>

text \<open>
  Modelled from the spec: the classes \<^verbatim>\<open>Relation\<close> and \<^verbatim>\<open>RelationSide\<close> are not among the
  sources. A relation is a value computed from a pair of fields, with the four components
  \<^verbatim>\<open>fromType\<close>, \<^verbatim>\<open>fromField\<close>, \<^verbatim>\<open>toType\<close>, \<^verbatim>\<open>toField\<close> (the last may be absent), and it has two
  sides, which are views of the one relation (section 3).
\<close>

record Relation =
  fromType :: Type
  fromField :: Field
  toType :: Type
  toField :: "Field option"

datatype RelationFieldSide = FROM_SIDE | TO_SIDE

record RelationSide =
  relation :: Relation
  side :: RelationFieldSide

definition fromSide :: "Relation \<Rightarrow> RelationSide" where
  "fromSide r = \<lparr>relation = r, side = FROM_SIDE\<rparr>"

definition toSide :: "Relation \<Rightarrow> RelationSide" where
  "toSide r = \<lparr>relation = r, side = TO_SIDE\<rparr>"

text \<open>The getters \<^verbatim>\<open>Field.relationSide\<close> and \<^verbatim>\<open>Field.relation\<close>, as values.\<close>

definition relationSide :: "Model \<Rightarrow> Field \<Rightarrow> RelationSide option" where
  "relationSide m f =
     (if \<not> isRelation (input f) \<or> \<not> isRootEntityType (declaringType f)
         \<or> \<not> isRootEntityType (Field_type m f)
      then None
      else (case inverseOf m f of
              Some inverseOf_f \<Rightarrow>
                Some (toSide \<lparr>fromType = Field_type m f, fromField = inverseOf_f,
                              toType = declaringType f, toField = Some f\<rparr>)
            | None \<Rightarrow>
                Some (fromSide \<lparr>fromType = declaringType f, fromField = f,
                                toType = Field_type m f, toField = inverseField m f\<rparr>)))"

definition Field_relation :: "Model \<Rightarrow> Field \<Rightarrow> Relation option" where
  "Field_relation m f =
     (case relationSide m f of
        None \<Rightarrow> None
      | Some relationSide_f \<Rightarrow> Some (relation relationSide_f))"

text \<open>
  What a thrown \<^verbatim>\<open>Error\<close> says, one constructor for each \<^verbatim>\<open>throw\<close> of the sources, with the
  values its message is built from.
\<close>

datatype error =
    ExpectedRootEntity string TypeKind
  | ExpectedRelation Field
  | ExpectedKeyField string
  | UnknownCalcMutationOperator string
  | CalcMutationOperatorNotDefined string
  | ExpectedArray string
  | UnsupportedTypeForUpdateInput TypeKind
  | UnexpectedFieldConfiguration string string

definition getRelationSideOrThrow :: "Model \<Rightarrow> Field \<Rightarrow> error + RelationSide" where
  "getRelationSideOrThrow m f =
     (if kind (config (Field_type m f)) \<noteq> ROOT_ENTITY
      then Inl (ExpectedRootEntity (TypeConfig.name (config (Field_type m f)))
                  (kind (config (Field_type m f))))
      else if kind (config (declaringType f)) \<noteq> ROOT_ENTITY
      then Inl (ExpectedRootEntity (TypeConfig.name (config (declaringType f)))
                  (kind (config (declaringType f))))
      else (case relationSide m f of
              None \<Rightarrow> Inl (ExpectedRelation f)
            | Some relationSide_f \<Rightarrow> Inr relationSide_f))"

subsection \<open>\<^verbatim>\<open>Field.validateRelation\<close>\<close>

definition orElse :: "'a option \<Rightarrow> 'a option \<Rightarrow> 'a option" where
  "orElse a b = (case a of Some x \<Rightarrow> Some x | None \<Rightarrow> b)"

fun join :: "string \<Rightarrow> string list \<Rightarrow> string" where
  "join sep [] = []"
| "join sep [x] = x"
| "join sep (x # y # ys) = x @ sep @ join sep (y # ys)"

definition quoted :: "string \<Rightarrow> string" where
  "quoted s = [CHR 0x22] @ s @ [CHR 0x22]"

definition Type_name :: "Type \<Rightarrow> string" where
  "Type_name t = TypeConfig.name (config t)"

definition Field_name :: "Field \<Rightarrow> string" where
  "Field_name f = FieldConfig.name (input f)"

definition inverseFieldDesc :: "Model \<Rightarrow> Field \<Rightarrow> string \<Rightarrow> string" where
  "inverseFieldDesc m f n =
     ''Field '' @ quoted (Type_name (Field_type m f) @ ''.'' @ n) @ '' used as inverse field of ''
       @ quoted (Type_name (declaringType f) @ ''.'' @ Field_name f)"

definition multipleInverseText :: "Model \<Rightarrow> Field \<Rightarrow> Field list \<Rightarrow> string" where
  "multipleInverseText m f inverseFields =
     ''Multiple fields (''
       @ join '', '' (map (\<lambda>g. quoted (Type_name (Field_type m f) @ ''.'' @ Field_name g)) inverseFields)
       @ '') declare inverseOf to '' @ quoted (Type_name (declaringType f) @ ''.'' @ Field_name f)
       @ ''.''"

definition validateRelation :: "Model \<Rightarrow> Field \<Rightarrow> ValidationContext \<Rightarrow> ValidationContext" where
  "validateRelation m f context =
     (if \<not> isRelation (input f) then context
      else
        let context1 =
          (if kind (config (declaringType f)) \<noteq> ROOT_ENTITY
           then addMessage context (ValidationMessage_error
                  ''Relations can only be defined on root entity types. Consider using @reference instead.''
                  (astNode (input f)))
           else context)
        in
        if \<not> hasValidType m f then context1
        else if kind (config (Field_type m f)) \<noteq> ROOT_ENTITY
        then addMessage context1 (ValidationMessage_error
               (''Type '' @ quoted (Type_name (Field_type m f))
                  @ '' cannot be used with @relation because it is not a root entity type.'')
               (astNode (input f)))
        else
          (case inverseOfFieldName (input f) of
             Some n \<Rightarrow>
               (case getField (Field_type m f) n of
                  None \<Rightarrow>
                    addMessage context1 (ValidationMessage_error
                      (''Field '' @ quoted n @ '' does not exist on type ''
                         @ quoted (Type_name (Field_type m f)) @ ''.'')
                      (orElse (inverseOfASTNode (input f)) (astNode (input f))))
                | Some inverseOf_f \<Rightarrow>
                    if Field_type m inverseOf_f \<noteq> declaringType f
                    then addMessage context1 (ValidationMessage_error
                           (inverseFieldDesc m f n @ '' has named type ''
                              @ quoted (Type_name (Field_type m inverseOf_f))
                              @ '' but should be of type '' @ quoted (Type_name (declaringType f)) @ ''.'')
                           (orElse (inverseOfASTNode (input f)) (astNode (input f))))
                    else if \<not> isRelation (input inverseOf_f)
                    then addMessage context1 (ValidationMessage_error
                           (inverseFieldDesc m f n @ '' does not have the @relation directive.'')
                           (orElse (inverseOfASTNode (input f)) (astNode (input f))))
                    else if inverseOf m inverseOf_f \<noteq> None
                    then addMessage context1 (ValidationMessage_error
                           (inverseFieldDesc m f n @ '' should not declare inverseOf itself.'')
                           (orElse (inverseOfASTNode (input f)) (astNode (input f))))
                    else context1)
           | None \<Rightarrow>
               (let inverseFields =
                      filter (\<lambda>field. inverseOf m field = Some f) (Type_fields (Field_type m f))
                in
                if length inverseFields = 0
                then
                  (case find (\<lambda>field. isRelation (input field) \<and> Field_type m field = declaringType f
                                 \<and> inverseOfFieldName (input field) = None)
                          (Type_fields (Field_type m f)) of
                     Some matchingRelation \<Rightarrow>
                       addMessage context1 (ValidationMessage_warn
                         (''This field and ''
                            @ quoted (Type_name (declaringType matchingRelation) @ ''.''
                                        @ Field_name matchingRelation)
                            @ '' define separate relations. Consider using the ''
                            @ quoted ''inverseOf'' @ '' argument to add a backlink to an existing relation.'')
                         (astNode (input f)))
                   | None \<Rightarrow> context1)
                else if length inverseFields > 1
                then
                  foldl (\<lambda>c inverseField_f. addMessage c (ValidationMessage_error
                           (multipleInverseText m f inverseFields) (astNode (input inverseField_f))))
                    context1 inverseFields
                else context1)))"

subsection \<open>\<^verbatim>\<open>Field.validateCalcMutations\<close>\<close>

text \<open>
  The table \<^verbatim>\<open>CALC_MUTATIONS_OPERATORS\<close> of \<^verbatim>\<open>schema/constants\<close> is not among the sources: it
  is a parameter. An entry has the fields the sources read.
\<close>

record CalcMutationOperator =
  name :: string
  prefix :: string
  supportedTypes :: "string list"

text \<open>
  \<^verbatim>\<open>new Set(input.calcMutationOperators || [])\<close>: the distinct operators, in the order of their
  first occurrence, which is the order in which \<^verbatim>\<open>for ... of\<close> visits them.
\<close>

definition newSet :: "'a list \<Rightarrow> 'a list" where
  "newSet xs = foldl (\<lambda>acc x. if x \<in> set acc then acc else acc @ [x]) [] xs"

definition Field_calcMutationOperators :: "Field \<Rightarrow> string list" where
  "Field_calcMutationOperators f = newSet (calcMutationOperators (input f))"

definition supportedOperatorsDesc :: "CalcMutationOperator list \<Rightarrow> string \<Rightarrow> string" where
  "supportedOperatorsDesc table typeName_f =
     join '', '' (map (\<lambda>op. quoted (CalcMutationOperator.name op))
                    (filter (\<lambda>op. typeName_f \<in> set (supportedTypes op)) table))"

definition unsupportedOperatorMessage ::
  "CalcMutationOperator list \<Rightarrow> Model \<Rightarrow> Field \<Rightarrow> string \<Rightarrow> ValidationMessage" where
  "unsupportedOperatorMessage table m f operator =
     ValidationMessage_error
       (''Calc mutation operator '' @ quoted operator @ '' is not supported on type ''
          @ quoted (Type_name (Field_type m f)) @ '' (supported operators: ''
          @ supportedOperatorsDesc table (Type_name (Field_type m f)) @ '').'')
       (astNode (input f))"

text \<open>
  The loop over the declared operators. It ends by returning (\<open>Inr ()\<close>) or by the \<^verbatim>\<open>throw\<close>
  (\<open>Inl\<close>); the messages added to the context before a \<^verbatim>\<open>throw\<close> stay in the context.
\<close>

fun validateOperators ::
  "CalcMutationOperator list \<Rightarrow> Model \<Rightarrow> Field \<Rightarrow> string list \<Rightarrow> ValidationContext
     \<Rightarrow> (error + unit) \<times> ValidationContext" where
  "validateOperators table m f [] context = (Inr (), context)"
| "validateOperators table m f (operator # rest) context =
     (case find (\<lambda>op. CalcMutationOperator.name op = operator) table of
        None \<Rightarrow> (Inl (UnknownCalcMutationOperator operator), context)
      | Some desc \<Rightarrow>
          validateOperators table m f rest
            (if Type_name (Field_type m f) \<notin> set (supportedTypes desc)
             then addMessage context (unsupportedOperatorMessage table m f operator)
             else context))"

definition validateCalcMutations ::
  "CalcMutationOperator list \<Rightarrow> Model \<Rightarrow> Field \<Rightarrow> ValidationContext
     \<Rightarrow> (error + unit) \<times> ValidationContext" where
  "validateCalcMutations table m f context =
     (if length (Field_calcMutationOperators f) = 0 then (Inr (), context)
      else if isList (input f)
      then (Inr (), addMessage context (ValidationMessage_error
              ''Calc mutations are not supported on list fields.'' (astNode (input f))))
      else
        let supportedOperators =
              filter (\<lambda>op. Type_name (Field_type m f) \<in> set (supportedTypes op)) table
        in
        if length (Field_calcMutationOperators f) > 0 \<and> length supportedOperators = 0
        then (Inr (), addMessage context (ValidationMessage_error
                (''Type '' @ quoted (Type_name (Field_type m f))
                   @ '' does not support any calc mutation operators.'')
                (astNode (input f))))
        else validateOperators table m f (Field_calcMutationOperators f) context)"

subsection \<open>The other checks and \<^verbatim>\<open>Field.validate\<close>\<close>









text \<open>
  Two notions used to state what the checks do: an operator is known when the table has an
  entry with its name, and it supports a type when the entry that \<^verbatim>\<open>find\<close> gives for its name
  lists the name of the type.
\<close>

definition isKnownOperator :: "CalcMutationOperator list \<Rightarrow> string \<Rightarrow> bool" where
  "isKnownOperator table operator = (operator \<in> set (map CalcMutationOperator.name table))"

definition supportsType :: "CalcMutationOperator list \<Rightarrow> string \<Rightarrow> string \<Rightarrow> bool" where
  "supportsType table operator typeName_f =
     (case find (\<lambda>op. CalcMutationOperator.name op = operator) table of
        None \<Rightarrow> False
      | Some desc \<Rightarrow> typeName_f \<in> set (supportedTypes desc))"

section \<open>The query tree and the compilation of field access\<close>

text \<open>
  Modelled from the spec: the node classes of \<^verbatim>\<open>query-tree\<close> are not among the sources. The
  vocabulary is the one of section 6: entity-set node, field-access node, conditional node,
  type-check node, list-transform node (filter, optional cap on the result count, bound item
  variable), first-of-list node, edge-follow node, binary-operation node, literal node and
  set-field node; one constructor for each class the sources construct, with the arguments of
  the constructor call. A variable node is identified by its label.
\<close>

datatype BasicType = OBJECT | LIST | SCALAR_VALUE | NULL

datatype BinaryOperator = AND | OR | EQUAL | UNEQUAL

datatype QueryNode =
    FieldQueryNode QueryNode Field
  | VariableQueryNode string
  | BinaryOperationQueryNode QueryNode BinaryOperator QueryNode
  | NullQueryNode
  | EntitiesQueryNode Type
  | TransformListQueryNode (listNode: QueryNode) (filterNode: QueryNode) (maxCount: "nat option")
      (itemVariable: QueryNode)
  | FirstOfListQueryNode QueryNode
  | ConditionalQueryNode QueryNode QueryNode QueryNode
  | TypeCheckQueryNode QueryNode BasicType
  | RootEntityIDQueryNode QueryNode
  | ObjectQueryNode "(string \<times> QueryNode) list"
  | ListQueryNode "QueryNode list"
  | FollowEdgeQueryNode RelationSide QueryNode
  | LiteralQueryNode AnyValue
  | SetFieldQueryNode Field QueryNode

text \<open>
  Modelled from the spec: \<^verbatim>\<open>ID_FIELD\<close> of \<^verbatim>\<open>schema/constants\<close> and \<^verbatim>\<open>and\<close> of
  \<^verbatim>\<open>filter-input-types/constants\<close> are not among the sources. The system identity field is
  the field named \<^verbatim>\<open>id\<close>; \<^verbatim>\<open>and\<close> builds the conjunction of two filter nodes, a
  binary-operation node (sections 4.2 and 6).
\<close>

definition ID_FIELD :: string where
  "ID_FIELD = ''id''"

definition and_node :: "QueryNode \<Rightarrow> QueryNode \<Rightarrow> QueryNode" where
  "and_node lhs rhs = BinaryOperationQueryNode lhs AND rhs"

text \<open>
  Modelled from the spec: \<^verbatim>\<open>RootEntityType.getKeyFieldOrThrow\<close> is not among the sources; it
  gives the designated key field of a root-entity type and throws when there is none.
\<close>

definition getKeyFieldOrThrow :: "Type \<Rightarrow> error + Field" where
  "getKeyFieldOrThrow t =
     (case keyField t of None \<Rightarrow> Inl (ExpectedKeyField (Type_name t)) | Some k \<Rightarrow> Inr k)"

definition createTo1RelationNode :: "Model \<Rightarrow> Field \<Rightarrow> QueryNode \<Rightarrow> error + QueryNode" where
  "createTo1RelationNode m field sourceNode =
     (case getRelationSideOrThrow m field of
        Inl e \<Rightarrow> Inl e
      | Inr relationSide_f \<Rightarrow>
          Inr (FirstOfListQueryNode (FollowEdgeQueryNode relationSide_f sourceNode)))"

definition createToNRelationNode :: "Model \<Rightarrow> Field \<Rightarrow> QueryNode \<Rightarrow> error + QueryNode" where
  "createToNRelationNode m field sourceNode =
     (case getRelationSideOrThrow m field of
        Inl e \<Rightarrow> Inl e
      | Inr relationSide_f \<Rightarrow> Inr (FollowEdgeQueryNode relationSide_f sourceNode))"

definition createSafeListQueryNode :: "QueryNode \<Rightarrow> QueryNode" where
  "createSafeListQueryNode listNode_f =
     ConditionalQueryNode (TypeCheckQueryNode listNode_f LIST) listNode_f (ListQueryNode [])"

text \<open>
  \<^verbatim>\<open>createFieldNode\<close> and \<^verbatim>\<open>createTo1ReferenceNode\<close> call each other: the node of a reference
  contains the node of the key field of the referenced type, and nothing in these two
  functions keeps that key field from being a reference again. The recursion is therefore
  bounded by fuel, one unit for each reference followed: the result is \<open>None\<close> when the fuel
  runs out, \<open>Some (Inl e)\<close> when an error is thrown and \<open>Some (Inr node)\<close> when a node is
  returned.
\<close>

fun createFieldNode :: "nat \<Rightarrow> Model \<Rightarrow> Field \<Rightarrow> QueryNode \<Rightarrow> (error + QueryNode) option"
  and createTo1ReferenceNode ::
    "nat \<Rightarrow> Model \<Rightarrow> Field \<Rightarrow> QueryNode \<Rightarrow> (error + QueryNode) option" where
  "createFieldNode fuel m field sourceNode =
     (if isList (input field)
      then (if isRelation (input field)
            then Some (createToNRelationNode m field sourceNode)
            else Some (Inr (createSafeListQueryNode (FieldQueryNode sourceNode field))))
      else if isRelation (input field)
      then Some (createTo1RelationNode m field sourceNode)
      else if isReference (input field)
      then createTo1ReferenceNode fuel m field sourceNode
      else if isRootEntityType (declaringType field) \<and> isSystemField (input field)
              \<and> Field_name field = ID_FIELD
      then Some (Inr (RootEntityIDQueryNode sourceNode))
      else
        (let fieldNode = FieldQueryNode sourceNode field in
         if isEntityExtensionType (Field_type m field)
         then Some (Inr (ConditionalQueryNode (TypeCheckQueryNode fieldNode OBJECT) fieldNode
                           (ObjectQueryNode [])))
         else Some (Inr fieldNode)))"
| "createTo1ReferenceNode 0 m field sourceNode = None"
| "createTo1ReferenceNode (Suc fuel) m field sourceNode =
     (let referencedEntityType = Field_type m field in
      case getKeyFieldOrThrow referencedEntityType of
        Inl e \<Rightarrow> Some (Inl e)
      | Inr keyFieldInReferencedEntity \<Rightarrow>
          (let referenceKeyNode = FieldQueryNode sourceNode field;
               listItemVar = VariableQueryNode (Field_name field)
           in
           case createFieldNode fuel m keyFieldInReferencedEntity listItemVar of
             None \<Rightarrow> None
           | Some (Inl e) \<Rightarrow> Some (Inl e)
           | Some (Inr itemKeyNode) \<Rightarrow>
               (let equalFilterNode = BinaryOperationQueryNode itemKeyNode EQUAL referenceKeyNode;
                    nonNullFilterNode = BinaryOperationQueryNode itemKeyNode UNEQUAL NullQueryNode;
                    filterNode_f = and_node nonNullFilterNode equalFilterNode;
                    listNode_f = EntitiesQueryNode referencedEntityType;
                    filteredListNode =
                      TransformListQueryNode listNode_f filterNode_f (Some 1) listItemVar;
                    rawNode = FirstOfListQueryNode filteredListNode
                in
                Some (Inr (ConditionalQueryNode (TypeCheckQueryNode referenceKeyNode NULL)
                             NullQueryNode rawNode)))))"

text \<open>
  The equation of \<^verbatim>\<open>createFieldNode\<close> applies to every call; it is unfolded where it is
  needed and not by the simplifier on its own.
\<close>

declare createFieldNode.simps [simp del]


section \<open>Update input fields\<close>

text \<open>
  Modelled from the spec: the GraphQL input types and the generators of enum types and of
  create input types are not among the sources. An input type is named by how it is
  obtained: \<^verbatim>\<open>GraphQLID\<close>, the scalar type of a model type, the enum type generated for a
  model type, a list or a non-null wrapper. A create input type and an update input type are
  named by the type they were generated for.
\<close>

datatype GraphQLInputType =
    GraphQLID
  | GraphQLScalarTypeOf Type
  | GeneratedEnumType Type
  | GraphQLList GraphQLInputType
  | GraphQLNonNull GraphQLInputType
  | InputTypeOfCreateObject Type

datatype CreateObjectInputType = CreateObjectInputType Type

definition getInputType :: "CreateObjectInputType \<Rightarrow> GraphQLInputType" where
  "getInputType c = (case c of CreateObjectInputType t \<Rightarrow> InputTypeOfCreateObject t)"

subsection \<open>\<^verbatim>\<open>UpdateFilterInputField\<close>\<close>

text \<open>
  The methods of the five classes of \<^verbatim>\<open>input-fields.ts\<close>, one function for each class and
  method, with the fields of the object the method reads as arguments. The set of affected
  fields is passed in and returned. A method of a subclass that is inherited calls the
  \<^verbatim>\<open>coerceValue\<close> of the subclass.
\<close>

definition UpdateFilterInputField_appliesToMissingFields :: bool where
  "UpdateFilterInputField_appliesToMissingFields = False"

definition UpdateFilterInputField_getProperties :: "AnyValue \<Rightarrow> QueryNode \<Rightarrow> QueryNode list" where
  "UpdateFilterInputField_getProperties v currentEntityNode = []"

definition UpdateFilterInputField_collectAffectedFields ::
  "AnyValue \<Rightarrow> Field set \<Rightarrow> Field set" where
  "UpdateFilterInputField_collectAffectedFields v affected = affected"

subsection \<open>\<^verbatim>\<open>BasicUpdateInputField\<close> and \<^verbatim>\<open>BasicListUpdateInputField\<close>\<close>

definition BasicUpdateInputField_coerceValue :: "AnyValue \<Rightarrow> AnyValue" where
  "BasicUpdateInputField_coerceValue v = v"

definition BasicUpdateInputField_getProperties :: "Field \<Rightarrow> AnyValue \<Rightarrow> QueryNode list" where
  "BasicUpdateInputField_getProperties field v =
     [SetFieldQueryNode field (LiteralQueryNode (BasicUpdateInputField_coerceValue v))]"

definition BasicUpdateInputField_collectAffectedFields ::
  "Field \<Rightarrow> AnyValue \<Rightarrow> Field set \<Rightarrow> Field set" where
  "BasicUpdateInputField_collectAffectedFields field v affected = insert field affected"

definition BasicListUpdateInputField_coerceValue :: "AnyValue \<Rightarrow> AnyValue" where
  "BasicListUpdateInputField_coerceValue v =
     (let v1 = BasicUpdateInputField_coerceValue v in
      if v1 = Null then Array [] else v1)"

definition BasicListUpdateInputField_getProperties :: "Field \<Rightarrow> AnyValue \<Rightarrow> QueryNode list" where
  "BasicListUpdateInputField_getProperties field v =
     [SetFieldQueryNode field (LiteralQueryNode (BasicListUpdateInputField_coerceValue v))]"

definition BasicListUpdateInputField_collectAffectedFields ::
  "Field \<Rightarrow> AnyValue \<Rightarrow> Field set \<Rightarrow> Field set" where
  "BasicListUpdateInputField_collectAffectedFields field v affected =
     BasicUpdateInputField_collectAffectedFields field v affected"

subsection \<open>\<^verbatim>\<open>UpdateValueObjectInputField\<close> and \<^verbatim>\<open>UpdateValueObjectListInputField\<close>\<close>

text \<open>
  \<^verbatim>\<open>CreateObjectInputType.prepareValue\<close> and \<^verbatim>\<open>CreateObjectInputType.collectAffectedFields\<close> are
  not among the sources: they are the parameters \<open>prepareValue\<close> and \<open>collect\<close>, either of
  which may throw. \<^verbatim>\<open>value == undefined\<close> holds for \<^verbatim>\<open>null\<close> and for \<^verbatim>\<open>undefined\<close>.
\<close>

fun mapPrepare :: "(AnyValue \<Rightarrow> error + AnyValue) \<Rightarrow> AnyValue list \<Rightarrow> error + AnyValue list" where
  "mapPrepare prepareValue [] = Inr []"
| "mapPrepare prepareValue (v # vs) =
     (case prepareValue v of
        Inl e \<Rightarrow> Inl e
      | Inr w \<Rightarrow> (case mapPrepare prepareValue vs of Inl e \<Rightarrow> Inl e | Inr ws \<Rightarrow> Inr (w # ws)))"

fun forEachCollect ::
  "(AnyValue \<Rightarrow> Field set \<Rightarrow> (error + unit) \<times> Field set) \<Rightarrow> AnyValue list \<Rightarrow> Field set
     \<Rightarrow> (error + unit) \<times> Field set" where
  "forEachCollect collect [] affected = (Inr (), affected)"
| "forEachCollect collect (v # vs) affected =
     (case collect v affected of
        (Inl e, affected1) \<Rightarrow> (Inl e, affected1)
      | (Inr u, affected1) \<Rightarrow> forEachCollect collect vs affected1)"

definition UpdateValueObjectInputField_coerceValue ::
  "(AnyValue \<Rightarrow> error + AnyValue) \<Rightarrow> AnyValue \<Rightarrow> error + AnyValue" where
  "UpdateValueObjectInputField_coerceValue prepareValue v =
     (let v1 = BasicUpdateInputField_coerceValue v in
      if v1 = Null \<or> v1 = Undefined then Inr v1 else prepareValue v1)"

definition UpdateValueObjectInputField_collectAffectedFields ::
  "(AnyValue \<Rightarrow> Field set \<Rightarrow> (error + unit) \<times> Field set) \<Rightarrow> Field \<Rightarrow> AnyValue \<Rightarrow> Field set
     \<Rightarrow> (error + unit) \<times> Field set" where
  "UpdateValueObjectInputField_collectAffectedFields collect field v affected =
     (let affected1 = BasicUpdateInputField_collectAffectedFields field v affected in
      if v = Null \<or> v = Undefined then (Inr (), affected1) else collect v affected1)"

definition UpdateValueObjectListInputField_coerceValue ::
  "(AnyValue \<Rightarrow> error + AnyValue) \<Rightarrow> string \<Rightarrow> AnyValue \<Rightarrow> error + AnyValue" where
  "UpdateValueObjectListInputField_coerceValue prepareValue name_f v =
     (let v1 = BasicUpdateInputField_coerceValue v in
      if v1 = Null then Inr (Array [])
      else if v1 = Undefined then Inr Undefined
      else (case v1 of
              Array vs \<Rightarrow>
                (case mapPrepare prepareValue vs of Inl e \<Rightarrow> Inl e | Inr ws \<Rightarrow> Inr (Array ws))
            | _ \<Rightarrow> Inl (ExpectedArray name_f)))"

definition UpdateValueObjectListInputField_getProperties ::
  "(AnyValue \<Rightarrow> error + AnyValue) \<Rightarrow> Field \<Rightarrow> AnyValue \<Rightarrow> error + QueryNode list" where
  "UpdateValueObjectListInputField_getProperties prepareValue field v =
     (case UpdateValueObjectListInputField_coerceValue prepareValue (Field_name field) v of
        Inl e \<Rightarrow> Inl e
      | Inr w \<Rightarrow> Inr [SetFieldQueryNode field (LiteralQueryNode w)])"

definition UpdateValueObjectListInputField_collectAffectedFields ::
  "(AnyValue \<Rightarrow> Field set \<Rightarrow> (error + unit) \<times> Field set) \<Rightarrow> Field \<Rightarrow> AnyValue \<Rightarrow> Field set
     \<Rightarrow> (error + unit) \<times> Field set" where
  "UpdateValueObjectListInputField_collectAffectedFields collect field v affected =
     (let affected1 = BasicUpdateInputField_collectAffectedFields field v affected in
      if v = Null \<or> v = Undefined then (Inr (), affected1)
      else (case v of
              Array vs \<Rightarrow> forEachCollect collect vs affected1
            | _ \<Rightarrow> (Inl (ExpectedArray (Field_name field)), affected1)))"

section \<open>The generator of update input types\<close>

text \<open>
  An update input type object. Its third constructor argument in the sources is a thunk that
  computes the input fields when they are first asked for; the thunks differ only in the
  options they pass to \<^verbatim>\<open>generateFields\<close>, so the thunk is represented by these options.
  Modelled from the spec: the classes of \<^verbatim>\<open>input-types.ts\<close> and the functions of
  \<^verbatim>\<open>schema/names\<close> are not among the sources; a name is kept as the function that makes it and
  the type name it is made from.
\<close>

datatype InputTypeName = UpdateInputTypeName string | UpdateAllInputTypeName string

record GenerateFieldsOptions =
  skipID :: bool
  skipRelations :: bool

definition defaultOptions :: GenerateFieldsOptions where
  "defaultOptions = \<lparr>skipID = False, skipRelations = False\<rparr>"

datatype UpdateObjectInputType =
    UpdateRootEntityInputType Type InputTypeName GenerateFieldsOptions
  | UpdateEntityExtensionInputType Type InputTypeName GenerateFieldsOptions
  | UpdateChildEntityInputType Type InputTypeName GenerateFieldsOptions

text \<open>
  The input field classes: the five of \<^verbatim>\<open>input-fields.ts\<close> and those \<^verbatim>\<open>generateFields\<close>
  constructs besides, each with the arguments of its constructor call.
\<close>

datatype UpdateInputField =
    UpdateFilterInputField Field GraphQLInputType
  | BasicUpdateInputField Field GraphQLInputType
  | BasicListUpdateInputField Field GraphQLInputType
  | UpdateValueObjectInputField Field CreateObjectInputType
  | UpdateValueObjectListInputField Field CreateObjectInputType
  | CalcMutationInputField Field GraphQLInputType string string
  | UpdateEntityExtensionInputField Field UpdateObjectInputType
  | AddChildEntitiesInputField Field CreateObjectInputType
  | UpdateChildEntitiesInputField Field UpdateObjectInputType
  | RemoveChildEntitiesInputField Field
  | AddEdgesInputField Field
  | RemoveEdgesInputField Field
  | CreateAndAddEdgesInputField Field CreateObjectInputType
  | SetEdgeInputField Field
  | CreateAndSetEdgeInputField Field CreateObjectInputType

definition generateForRootEntityType :: "Type \<Rightarrow> UpdateObjectInputType" where
  "generateForRootEntityType t =
     UpdateRootEntityInputType t (UpdateInputTypeName (Type_name t)) defaultOptions"

definition generateUpdateAllRootEntitiesInputType :: "Type \<Rightarrow> UpdateObjectInputType" where
  "generateUpdateAllRootEntitiesInputType t =
     UpdateRootEntityInputType t (UpdateAllInputTypeName (Type_name t))
       \<lparr>skipID = True, skipRelations = True\<rparr>"

definition generateForEntityExtensionType :: "Type \<Rightarrow> UpdateObjectInputType" where
  "generateForEntityExtensionType t =
     UpdateEntityExtensionInputType t (UpdateInputTypeName (Type_name t)) defaultOptions"

definition generateForChildEntityType :: "Type \<Rightarrow> UpdateObjectInputType" where
  "generateForChildEntityType t =
     UpdateChildEntityInputType t (UpdateInputTypeName (Type_name t)) defaultOptions"

definition generate :: "Type \<Rightarrow> error + UpdateObjectInputType" where
  "generate t =
     (if isRootEntityType t then Inr (generateForRootEntityType t)
      else if isEntityExtensionType t then Inr (generateForEntityExtensionType t)
      else if isChildEntityType t then Inr (generateForChildEntityType t)
      else Inl (UnsupportedTypeForUpdateInput (kind (config t))))"

fun getCalcMutationOperatorsOrThrow ::
  "CalcMutationOperator list \<Rightarrow> string list \<Rightarrow> error + CalcMutationOperator list" where
  "getCalcMutationOperatorsOrThrow table [] = Inr []"
| "getCalcMutationOperatorsOrThrow table (operator # rest) =
     (case find (\<lambda>op. CalcMutationOperator.name op = operator) table of
        None \<Rightarrow> Inl (CalcMutationOperatorNotDefined operator)
      | Some v \<Rightarrow>
          (case getCalcMutationOperatorsOrThrow table rest of
             Inl e \<Rightarrow> Inl e
           | Inr vs \<Rightarrow> Inr (v # vs)))"

text \<open>
  Modelled from the spec: \<^verbatim>\<open>getKeyFieldTypeOrThrow\<close> is not among the sources; it gives the
  type of the key field of a root-entity type (section 4.3: the setter of a reference accepts
  the scalar type of the key field).
\<close>

definition getKeyFieldTypeOrThrow :: "Model \<Rightarrow> Type \<Rightarrow> error + Type" where
  "getKeyFieldTypeOrThrow m t =
     (case getKeyFieldOrThrow t of Inl e \<Rightarrow> Inl e | Inr k \<Rightarrow> Inr (Field_type m k))"

definition generateFields ::
  "CalcMutationOperator list \<Rightarrow> Model \<Rightarrow> Field \<Rightarrow> GenerateFieldsOptions
     \<Rightarrow> error + UpdateInputField list" where
  "generateFields table m field options =
     (if isSystemField (input field)
      then
        (if \<not> skipID options
            \<and> (isRootEntityType (declaringType field) \<or> isChildEntityType (declaringType field))
            \<and> Field_name field = ID_FIELD
         then Inr [UpdateFilterInputField field (GraphQLNonNull GraphQLID)]
         else Inr [])
      else if isScalarType (Field_type m field) \<or> isEnumType (Field_type m field)
      then
        (let inputType =
               (if isEnumType (Field_type m field) then GeneratedEnumType (Field_type m field)
                else GraphQLScalarTypeOf (Field_type m field))
         in
         if isList (input field)
         then Inr [BasicListUpdateInputField field (GraphQLList (GraphQLNonNull inputType))]
         else
           (case getCalcMutationOperatorsOrThrow table (Field_calcMutationOperators field) of
              Inl e \<Rightarrow> Inl e
            | Inr calcMutationOperators_f \<Rightarrow>
                Inr (BasicUpdateInputField field inputType
                     # map (\<lambda>op. CalcMutationInputField field inputType
                                    (CalcMutationOperator.name op) (prefix op))
                         calcMutationOperators_f)))
      else if isValueObjectType (Field_type m field)
      then
        (let inputType = CreateObjectInputType (Field_type m field) in
         if isList (input field)
         then Inr [UpdateValueObjectListInputField field inputType]
         else Inr [UpdateValueObjectInputField field inputType])
      else if isEntityExtensionType (Field_type m field)
      then
        (case generate (Field_type m field) of
           Inl e \<Rightarrow> Inl e
         | Inr inputType \<Rightarrow> Inr [UpdateEntityExtensionInputField field inputType])
      else if isChildEntityType (Field_type m field)
      then
        Inr [AddChildEntitiesInputField field (CreateObjectInputType (Field_type m field)),
             UpdateChildEntitiesInputField field (generateForChildEntityType (Field_type m field)),
             RemoveChildEntitiesInputField field]
      else if isReference (input field)
      then
        (case getKeyFieldTypeOrThrow m (Field_type m field) of
           Inl e \<Rightarrow> Inl e
         | Inr keyFieldType \<Rightarrow> Inr [BasicUpdateInputField field (GraphQLScalarTypeOf keyFieldType)])
      else if isRelation (input field)
      then
        (if skipRelations options then Inr []
         else
           (let inputType = CreateObjectInputType (Field_type m field) in
            if isList (input field)
            then Inr [AddEdgesInputField field, RemoveEdgesInputField field,
                      CreateAndAddEdgesInputField field inputType]
            else Inr [SetEdgeInputField field, CreateAndSetEdgeInputField field inputType]))
      else Inl (UnexpectedFieldConfiguration (Type_name (declaringType field)) (Field_name field)))"

text \<open>
  The input fields of an update input type: what its thunk computes,
  \<^verbatim>\<open>flatMap(type.fields, field => this.generateFields(field, options))\<close>.
\<close>

fun flatMapFields ::
  "CalcMutationOperator list \<Rightarrow> Model \<Rightarrow> GenerateFieldsOptions \<Rightarrow> Field list
     \<Rightarrow> error + UpdateInputField list" where
  "flatMapFields table m options [] = Inr []"
| "flatMapFields table m options (field # rest) =
     (case generateFields table m field options of
        Inl e \<Rightarrow> Inl e
      | Inr inputFields \<Rightarrow>
          (case flatMapFields table m options rest of
             Inl e \<Rightarrow> Inl e
           | Inr others \<Rightarrow> Inr (inputFields @ others)))"

fun inputFieldsOf ::
  "CalcMutationOperator list \<Rightarrow> Model \<Rightarrow> UpdateObjectInputType \<Rightarrow> error + UpdateInputField list" where
  "inputFieldsOf table m (UpdateRootEntityInputType t n options) =
     flatMapFields table m options (Type_fields t)"
| "inputFieldsOf table m (UpdateEntityExtensionInputType t n options) =
     flatMapFields table m options (Type_fields t)"
| "inputFieldsOf table m (UpdateChildEntityInputType t n options) =
     flatMapFields table m options (Type_fields t)"

text \<open>Whether an input field is an object of the class \<^verbatim>\<open>UpdateFilterInputField\<close>.\<close>

fun isUpdateFilterInputField :: "UpdateInputField \<Rightarrow> bool" where
  "isUpdateFilterInputField (UpdateFilterInputField f t) = True"
| "isUpdateFilterInputField other = False"

section \<open>Objects and their identity\<close>

text \<open>
  Where a claim is about which object an access returns, the objects that the sources create
  with \<^verbatim>\<open>new\<close> live in a store: \<^verbatim>\<open>new\<close> takes the next free reference and stores the object
  there, and two objects are identical when their references are equal. The objects of the
  model itself (types and fields) are created once, when the model is built; they are
  identified by their position in the model, as above.
\<close>

record Heap =
  nextRef :: nat
  relationObjects :: "nat \<Rightarrow> Relation option"
  inputTypeObjects :: "nat \<Rightarrow> UpdateObjectInputType option"
  generate_cache :: "Type \<Rightarrow> nat option"
  generateForRootEntityType_cache :: "Type \<Rightarrow> nat option"
  generateUpdateAllRootEntitiesInputType_cache :: "Type \<Rightarrow> nat option"
  generateForEntityExtensionType_cache :: "Type \<Rightarrow> nat option"
  generateForChildEntityType_cache :: "Type \<Rightarrow> nat option"

definition emptyHeap :: Heap where
  "emptyHeap =
     \<lparr>nextRef = 0, relationObjects = (\<lambda>r. None), inputTypeObjects = (\<lambda>r. None),
      generate_cache = (\<lambda>t. None), generateForRootEntityType_cache = (\<lambda>t. None),
      generateUpdateAllRootEntitiesInputType_cache = (\<lambda>t. None),
      generateForEntityExtensionType_cache = (\<lambda>t. None),
      generateForChildEntityType_cache = (\<lambda>t. None)\<rparr>"

definition new_Relation :: "Relation \<Rightarrow> Heap \<Rightarrow> nat \<times> Heap" where
  "new_Relation r h =
     (nextRef h, h\<lparr>nextRef := Suc (nextRef h), relationObjects := (relationObjects h)(nextRef h \<mapsto> r)\<rparr>)"

definition new_UpdateObjectInputType :: "UpdateObjectInputType \<Rightarrow> Heap \<Rightarrow> nat \<times> Heap" where
  "new_UpdateObjectInputType obj h =
     (nextRef h,
      h\<lparr>nextRef := Suc (nextRef h), inputTypeObjects := (inputTypeObjects h)(nextRef h \<mapsto> obj)\<rparr>)"

text \<open>
  The getters \<^verbatim>\<open>Field.relationSide\<close> and \<^verbatim>\<open>Field.relation\<close> with the allocation written out:
  neither getter is decorated, and each evaluation that reaches one of the two
  \<^verbatim>\<open>new Relation(...)\<close> creates an object. A side is a part of its relation object and is
  identified by the reference of the relation and its tag.
\<close>

definition relationSide_access ::
  "Model \<Rightarrow> Field \<Rightarrow> Heap \<Rightarrow> (nat \<times> RelationFieldSide) option \<times> Heap" where
  "relationSide_access m f h =
     (case relationSide m f of
        None \<Rightarrow> (None, h)
      | Some s \<Rightarrow> (case new_Relation (relation s) h of (r, h1) \<Rightarrow> (Some (r, side s), h1)))"

definition relation_access :: "Model \<Rightarrow> Field \<Rightarrow> Heap \<Rightarrow> nat option \<times> Heap" where
  "relation_access m f h =
     (case relationSide_access m f h of
        (None, h1) \<Rightarrow> (None, h1)
      | (Some (r, sd), h1) \<Rightarrow> (Some r, h1))"

text \<open>
  Modelled from the spec: the decorator \<^verbatim>\<open>@memorize()\<close> comes from the package
  \<^verbatim>\<open>memorize-decorator\<close>, not among the sources. A decorated method keeps, for each argument
  it was called with, the result it returned, and returns that result again (section 4.3:
  memoized per type). A call that throws stores nothing.
\<close>

definition memorize ::
  "(Heap \<Rightarrow> Type \<Rightarrow> nat option) \<Rightarrow> (Heap \<Rightarrow> Type \<Rightarrow> nat \<Rightarrow> Heap)
     \<Rightarrow> (Type \<Rightarrow> Heap \<Rightarrow> (error + nat) \<times> Heap) \<Rightarrow> Type \<Rightarrow> Heap \<Rightarrow> (error + nat) \<times> Heap" where
  "memorize cache store body t h =
     (case cache h t of
        Some r \<Rightarrow> (Inr r, h)
      | None \<Rightarrow>
          (case body t h of
             (Inl e, h1) \<Rightarrow> (Inl e, h1)
           | (Inr r, h1) \<Rightarrow> (Inr r, store h1 t r)))"

definition generateForRootEntityType_call :: "Type \<Rightarrow> Heap \<Rightarrow> (error + nat) \<times> Heap" where
  "generateForRootEntityType_call =
     memorize generateForRootEntityType_cache
       (\<lambda>h t r. h\<lparr>generateForRootEntityType_cache := (generateForRootEntityType_cache h)(t \<mapsto> r)\<rparr>)
       (\<lambda>t h. case new_UpdateObjectInputType (generateForRootEntityType t) h of
                 (r, h1) \<Rightarrow> (Inr r, h1))"

definition generateUpdateAllRootEntitiesInputType_call ::
  "Type \<Rightarrow> Heap \<Rightarrow> (error + nat) \<times> Heap" where
  "generateUpdateAllRootEntitiesInputType_call =
     memorize generateUpdateAllRootEntitiesInputType_cache
       (\<lambda>h t r. h\<lparr>generateUpdateAllRootEntitiesInputType_cache :=
                     (generateUpdateAllRootEntitiesInputType_cache h)(t \<mapsto> r)\<rparr>)
       (\<lambda>t h. case new_UpdateObjectInputType (generateUpdateAllRootEntitiesInputType t) h of
                 (r, h1) \<Rightarrow> (Inr r, h1))"

definition generateForEntityExtensionType_call :: "Type \<Rightarrow> Heap \<Rightarrow> (error + nat) \<times> Heap" where
  "generateForEntityExtensionType_call =
     memorize generateForEntityExtensionType_cache
       (\<lambda>h t r. h\<lparr>generateForEntityExtensionType_cache :=
                     (generateForEntityExtensionType_cache h)(t \<mapsto> r)\<rparr>)
       (\<lambda>t h. case new_UpdateObjectInputType (generateForEntityExtensionType t) h of
                 (r, h1) \<Rightarrow> (Inr r, h1))"

definition generateForChildEntityType_call :: "Type \<Rightarrow> Heap \<Rightarrow> (error + nat) \<times> Heap" where
  "generateForChildEntityType_call =
     memorize generateForChildEntityType_cache
       (\<lambda>h t r. h\<lparr>generateForChildEntityType_cache := (generateForChildEntityType_cache h)(t \<mapsto> r)\<rparr>)
       (\<lambda>t h. case new_UpdateObjectInputType (generateForChildEntityType t) h of
                 (r, h1) \<Rightarrow> (Inr r, h1))"

definition generate_call :: "Type \<Rightarrow> Heap \<Rightarrow> (error + nat) \<times> Heap" where
  "generate_call =
     memorize generate_cache
       (\<lambda>h t r. h\<lparr>generate_cache := (generate_cache h)(t \<mapsto> r)\<rparr>)
       (\<lambda>t h. if isRootEntityType t then generateForRootEntityType_call t h
               else if isEntityExtensionType t then generateForEntityExtensionType_call t h
               else if isChildEntityType t then generateForChildEntityType_call t h
               else (Inl (UnsupportedTypeForUpdateInput (kind (config t))), h))"

section \<open>Example models\<close>

text \<open>Small models on which the definitions are evaluated.\<close>

definition plainField :: "string \<Rightarrow> string \<Rightarrow> ASTNode \<Rightarrow> FieldConfig" where
  "plainField n t l =
     \<lparr>FieldConfig.name = n, typeName = t, typeNameAST = None, astNode = Some l,
      defaultValue = None, defaultValueASTNode = None, isList = False, isReference = False,
      isRelation = False, isSystemField = False, calcMutationOperators = [], permissions = None,
      inverseOfFieldName = None, inverseOfASTNode = None\<rparr>"

definition relationField :: "string \<Rightarrow> string \<Rightarrow> ASTNode \<Rightarrow> string option \<Rightarrow> FieldConfig" where
  "relationField n t l inverseName =
     (plainField n t l)\<lparr>isRelation := True, inverseOfFieldName := inverseName\<rparr>"

definition systemIdField :: "ASTNode \<Rightarrow> FieldConfig" where
  "systemIdField l = (plainField ''id'' ''ID'' l)\<lparr>isSystemField := True\<rparr>"

definition scalarType :: "string \<Rightarrow> TypeConfig" where
  "scalarType n = \<lparr>TypeConfig.name = n, kind = SCALAR, fieldConfigs = [], keyFieldName = None\<rparr>"

definition noInvalidType :: "string \<Rightarrow> TypeConfig" where
  "noInvalidType n = \<lparr>TypeConfig.name = n, kind = SCALAR, fieldConfigs = [], keyFieldName = None\<rparr>"

text \<open>
  \<^verbatim>\<open>Movie.actors\<close> and \<^verbatim>\<open>Actor.movies\<close> are the two fields of one relation; \<^verbatim>\<open>Actor.debut\<close>
  declares itself inverse of \<^verbatim>\<open>Movie.cast\<close>, which declares an inverse itself; \<^verbatim>\<open>Movie.title\<close>
  names a permission profile.
\<close>

definition movieConfig :: TypeConfig where
  "movieConfig =
     \<lparr>TypeConfig.name = ''Movie'', kind = ROOT_ENTITY,
      fieldConfigs =
        [systemIdField 10,
         (plainField ''title'' ''String'' 11)
           \<lparr>permissions := Some \<lparr>permissionProfileName = Some ''restricted'',
                                   permissionProfileNameAstNode = None, roles = None\<rparr>\<rparr>,
         (relationField ''actors'' ''Actor'' 12 None)\<lparr>isList := True\<rparr>,
         (relationField ''cast'' ''Actor'' 13 (Some ''movies''))\<lparr>isList := True\<rparr>],
      keyFieldName = None\<rparr>"

definition actorConfig :: TypeConfig where
  "actorConfig =
     \<lparr>TypeConfig.name = ''Actor'', kind = ROOT_ENTITY,
      fieldConfigs =
        [systemIdField 20,
         plainField ''name'' ''String'' 21,
         (relationField ''movies'' ''Movie'' 22 (Some ''actors''))\<lparr>isList := True\<rparr>,
         (relationField ''debut'' ''Movie'' 23 (Some ''cast''))\<lparr>inverseOfASTNode := Some 24\<rparr>],
      keyFieldName = None\<rparr>"

definition movieModel :: Model where
  "movieModel =
     \<lparr>types = [scalarType ''String'', scalarType ''ID'', movieConfig, actorConfig],
      invalidType = noInvalidType, permissionProfiles = [''default'', ''restricted'']\<rparr>"

definition movieType :: Type where
  "movieType = \<lparr>ident = Some 2, config = movieConfig\<rparr>"

definition actorType :: Type where
  "actorType = \<lparr>ident = Some 3, config = actorConfig\<rparr>"

definition fieldAt :: "Type \<Rightarrow> nat \<Rightarrow> Field" where
  "fieldAt t i = \<lparr>declaringType = t, position = i, input = fieldConfigs (config t) ! i\<rparr>"

text \<open>Two fields of \<^verbatim>\<open>Song\<close> both declare themselves inverse of \<^verbatim>\<open>Album.songs\<close>.\<close>

definition albumConfig :: TypeConfig where
  "albumConfig =
     \<lparr>TypeConfig.name = ''Album'', kind = ROOT_ENTITY,
      fieldConfigs = [(relationField ''songs'' ''Song'' 30 None)\<lparr>isList := True\<rparr>],
      keyFieldName = None\<rparr>"

definition songConfig :: TypeConfig where
  "songConfig =
     \<lparr>TypeConfig.name = ''Song'', kind = ROOT_ENTITY,
      fieldConfigs =
        [relationField ''album'' ''Album'' 40 (Some ''songs''),
         plainField ''title'' ''String'' 41,
         relationField ''firstAlbum'' ''Album'' 42 (Some ''songs'')],
      keyFieldName = None\<rparr>"

definition albumModel :: Model where
  "albumModel =
     \<lparr>types = [scalarType ''String'', albumConfig, songConfig],
      invalidType = noInvalidType, permissionProfiles = []\<rparr>"

definition albumType :: Type where
  "albumType = \<lparr>ident = Some 1, config = albumConfig\<rparr>"

definition songType :: Type where
  "songType = \<lparr>ident = Some 2, config = songConfig\<rparr>"

text \<open>
  \<^verbatim>\<open>Playlist.entries\<close> is declared a relation to the value-object type \<^verbatim>\<open>Entry\<close>, two fields
  of which declare themselves inverse of it.
\<close>

definition playlistConfig :: TypeConfig where
  "playlistConfig =
     \<lparr>TypeConfig.name = ''Playlist'', kind = ROOT_ENTITY,
      fieldConfigs = [(relationField ''entries'' ''Entry'' 90 None)\<lparr>isList := True\<rparr>],
      keyFieldName = None\<rparr>"

definition entryConfig :: TypeConfig where
  "entryConfig =
     \<lparr>TypeConfig.name = ''Entry'', kind = VALUE_OBJECT,
      fieldConfigs =
        [relationField ''playlist'' ''Playlist'' 91 (Some ''entries''),
         relationField ''origin'' ''Playlist'' 92 (Some ''entries'')],
      keyFieldName = None\<rparr>"

definition playlistModel :: Model where
  "playlistModel =
     \<lparr>types = [playlistConfig, entryConfig], invalidType = noInvalidType, permissionProfiles = []\<rparr>"

definition playlistEntries :: Field where
  "playlistEntries = fieldAt \<lparr>ident = Some 0, config = playlistConfig\<rparr> 0"

definition entryType :: Type where
  "entryType = \<lparr>ident = Some 1, config = entryConfig\<rparr>"

definition entryPlaylist :: Field where
  "entryPlaylist = fieldAt entryType 0"

definition entryOrigin :: Field where
  "entryOrigin = fieldAt entryType 1"

text \<open>
  An order model: \<^verbatim>\<open>Order.customer\<close> is a reference to \<^verbatim>\<open>Customer\<close>, whose key field is its
  \<^verbatim>\<open>id\<close>; \<^verbatim>\<open>OrderItem\<close> is a child-entity type; \<^verbatim>\<open>Address\<close> is a value-object type.
\<close>

definition customerConfig :: TypeConfig where
  "customerConfig =
     \<lparr>TypeConfig.name = ''Customer'', kind = ROOT_ENTITY,
      fieldConfigs =
        [systemIdField 50,
         plainField ''name'' ''String'' 51,
         (plainField ''addresses'' ''Address'' 52)\<lparr>isList := True\<rparr>],
      keyFieldName = Some ''id''\<rparr>"

definition orderConfig :: TypeConfig where
  "orderConfig =
     \<lparr>TypeConfig.name = ''Order'', kind = ROOT_ENTITY,
      fieldConfigs =
        [systemIdField 60,
         (plainField ''customer'' ''Customer'' 61)\<lparr>isReference := True\<rparr>,
         (plainField ''items'' ''OrderItem'' 62)\<lparr>isList := True\<rparr>,
         (plainField ''tags'' ''String'' 63)\<lparr>isList := True, calcMutationOperators := [''APPEND'']\<rparr>,
         (plainField ''total'' ''Int'' 64)\<lparr>calcMutationOperators := [''APPEND'', ''SCALE'', ''ADD'']\<rparr>,
         (plainField ''note'' ''String'' 65)\<lparr>calcMutationOperators := [''ADD'', ''APPEND'', ''MULTIPLY'']\<rparr>,
         (plainField ''paid'' ''Boolean'' 66)\<lparr>calcMutationOperators := [''ADD'', ''TOGGLE'']\<rparr>],
      keyFieldName = None\<rparr>"

definition orderItemConfig :: TypeConfig where
  "orderItemConfig =
     \<lparr>TypeConfig.name = ''OrderItem'', kind = CHILD_ENTITY,
      fieldConfigs = [systemIdField 70, plainField ''quantity'' ''Int'' 71],
      keyFieldName = None\<rparr>"

definition addressConfig :: TypeConfig where
  "addressConfig =
     \<lparr>TypeConfig.name = ''Address'', kind = VALUE_OBJECT,
      fieldConfigs = [plainField ''city'' ''String'' 80],
      keyFieldName = None\<rparr>"

definition orderModel :: Model where
  "orderModel =
     \<lparr>types = [scalarType ''String'', scalarType ''ID'', scalarType ''Int'', scalarType ''Boolean'',
               customerConfig, orderConfig, orderItemConfig, addressConfig],
      invalidType = noInvalidType, permissionProfiles = []\<rparr>"

definition customerType :: Type where
  "customerType = \<lparr>ident = Some 4, config = customerConfig\<rparr>"

definition orderType :: Type where
  "orderType = \<lparr>ident = Some 5, config = orderConfig\<rparr>"

definition orderItemType :: Type where
  "orderItemType = \<lparr>ident = Some 6, config = orderItemConfig\<rparr>"

definition customerId :: Field where
  "customerId = fieldAt customerType 0"

definition customerName :: Field where
  "customerName = fieldAt customerType 1"

definition customerAddresses :: Field where
  "customerAddresses = fieldAt customerType 2"

definition addressType :: Type where
  "addressType = \<lparr>ident = Some 7, config = addressConfig\<rparr>"

definition stringType :: Type where
  "stringType = \<lparr>ident = Some 0, config = scalarType ''String''\<rparr>"

definition movieTitle :: Field where
  "movieTitle = fieldAt movieType 1"

definition actorMovies :: Field where
  "actorMovies = fieldAt actorType 2"

definition movieActors :: Field where
  "movieActors = fieldAt movieType 2"

definition orderTags :: Field where
  "orderTags = fieldAt orderType 3"

definition orderTotal :: Field where
  "orderTotal = fieldAt orderType 4"

definition orderNote :: Field where
  "orderNote = fieldAt orderType 5"

definition orderPaid :: Field where
  "orderPaid = fieldAt orderType 6"


text \<open>
  \<^verbatim>\<open>Node\<close> has the reference \<^verbatim>\<open>parent\<close> to \<^verbatim>\<open>Node\<close> as its key field; \<^verbatim>\<open>Node.link\<close> is declared
  both a reference and a relation.
\<close>

definition nodeConfig :: TypeConfig where
  "nodeConfig =
     \<lparr>TypeConfig.name = ''Node'', kind = ROOT_ENTITY,
      fieldConfigs =
        [(plainField ''parent'' ''Node'' 100)\<lparr>isReference := True\<rparr>,
         (plainField ''link'' ''Node'' 101)\<lparr>isReference := True, isRelation := True\<rparr>],
      keyFieldName = Some ''parent''\<rparr>"

definition nodeModel :: Model where
  "nodeModel = \<lparr>types = [nodeConfig], invalidType = noInvalidType, permissionProfiles = []\<rparr>"

definition nodeType :: Type where
  "nodeType = \<lparr>ident = Some 0, config = nodeConfig\<rparr>"

definition nodeParent :: Field where
  "nodeParent = fieldAt nodeType 0"









definition songFirstAlbum :: Field where
  "songFirstAlbum = fieldAt songType 2"

definition songAlbum :: Field where
  "songAlbum = fieldAt songType 0"

definition albumSongs :: Field where
  "albumSongs = fieldAt albumType 0"




text \<open>A table of calc-mutation operators, for the evaluation of the functions that take one.\<close>

definition exampleOperators :: "CalcMutationOperator list" where
  "exampleOperators =
     [\<lparr>CalcMutationOperator.name = ''MULTIPLY'', prefix = ''multiplyWith_'',
       supportedTypes = [''Int'', ''Float'']\<rparr>,
      \<lparr>CalcMutationOperator.name = ''ADD'', prefix = ''addTo_'',
       supportedTypes = [''Int'', ''Float'']\<rparr>,
      \<lparr>CalcMutationOperator.name = ''APPEND'', prefix = ''appendTo_'',
       supportedTypes = [''String'']\<rparr>]"

section \<open>Auxiliary facts\<close>

lemma find_unique:
  assumes "x \<in> set xs" and "P x" and "\<forall>y \<in> set xs. P y \<longrightarrow> y = x"
  shows "find P xs = Some x"
  using assms
proof (induction xs)
  case Nil
  then show ?case by simp
next
  case (Cons a xs)
  show ?case
  proof (cases "P a")
    case True
    have "a \<in> set (a # xs)" by simp
    with Cons.prems(3) True have "a = x" by blast
    with True show ?thesis by simp
  next
    case False
    with Cons.prems(1,2) have mem: "x \<in> set xs" by auto
    from Cons.prems(3) have "\<forall>y \<in> set xs. P y \<longrightarrow> y = x" by (meson list.set_intros(2))
    from Cons.IH [OF mem Cons.prems(2) this] False show ?thesis by simp
  qed
qed

lemma foldl_addMessage:
  "foldl (\<lambda>c x. c @ [g x]) ctx xs = ctx @ map g xs"
  by (induction xs arbitrary: ctx) simp_all

lemma uppercase_not_underscore:
  assumes "startsWithUppercase s"
  shows "s \<noteq> [] \<and> \<not> startsWithUnderscore s"
proof (cases s)
  case Nil
  with assms show ?thesis by (simp add: startsWithUppercase_def)
next
  case (Cons c cs)
  have "CHR ''_'' \<notin> set ''ABCDEFGHIJKLMNOPQRSTUVWXYZ''" by simp
  moreover from assms Cons have "c \<in> set ''ABCDEFGHIJKLMNOPQRSTUVWXYZ''"
    by (simp only: startsWithUppercase_def list.case)
  ultimately have "c \<noteq> CHR ''_''" by blast
  with Cons show ?thesis by (simp add: startsWithUnderscore_def)
qed

lemma validateName_refines_rules: "validateName f ctx = ctx @ nameDiagnostics f"
  by (cases "FieldConfig.name (input f)")
     (simp_all add: validateName_def nameDiagnostics_def firstMatchingNameRule_def nameRuleOrder_def
        addMessage_def ValidationMessage_error_def ValidationMessage_warn_def
        startsWithUnderscore_def includesUnderscore_def matchesLowercaseInitial_def)

lemma find_known:
  "isKnownOperator table operator
     \<Longrightarrow> \<exists>desc. find (\<lambda>op. CalcMutationOperator.name op = operator) table = Some desc"
  by (induction table) (auto simp: isKnownOperator_def)

lemma find_unknown:
  "\<not> isKnownOperator table operator
     \<Longrightarrow> find (\<lambda>op. CalcMutationOperator.name op = operator) table = None"
  by (induction table) (auto simp: isKnownOperator_def)

lemma validateOperators_known_prefix:
  assumes "\<forall>operator \<in> set known. isKnownOperator table operator"
  shows "validateOperators table m f (known @ rest) ctx
           = validateOperators table m f rest
               (ctx @ map (unsupportedOperatorMessage table m f)
                        (filter (\<lambda>operator. \<not> supportsType table operator (Type_name (Field_type m f)))
                           known))"
  using assms
proof (induction known arbitrary: ctx)
  case Nil
  then show ?case by simp
next
  case (Cons operator known)
  then obtain desc where
    desc: "find (\<lambda>op. CalcMutationOperator.name op = operator) table = Some desc"
    using find_known [of table operator] by auto
  from Cons.prems have rest_known: "\<forall>operator \<in> set known. isKnownOperator table operator"
    by simp
  show ?case
    using desc Cons.IH [OF rest_known]
    by (simp add: supportsType_def addMessage_def)
qed


lemma createFieldNode_plain_field:
  assumes "\<not> isList (input k)" and "\<not> isRelation (input k)" and "\<not> isReference (input k)"
  shows "\<exists>node. createFieldNode fuel m k s = Some (Inr node)"
  using assms by (simp add: createFieldNode.simps [of fuel] Let_def)


lemma cyclic_key_reference_never_returns:
  "createTo1ReferenceNode fuel nodeModel nodeParent s = None"
proof (induction fuel arbitrary: s)
  case 0
  show ?case by simp
next
  case (Suc fuel)
  have flags: "\<not> isList (input nodeParent)" "\<not> isRelation (input nodeParent)"
    "isReference (input nodeParent)" by code_simp+
  have key: "getKeyFieldOrThrow (Field_type nodeModel nodeParent) = Inr nodeParent" by code_simp
  from flags Suc.IH
  have "createFieldNode fuel nodeModel nodeParent (VariableQueryNode (Field_name nodeParent)) = None"
    by (simp add: createFieldNode.simps [of fuel])
  with key show ?case
    by (simp add: Let_def)
qed

lemma cyclic_key_never_returns:
  "createFieldNode fuel nodeModel nodeParent s = None"
proof -
  have flags: "\<not> isList (input nodeParent)" "\<not> isRelation (input nodeParent)"
    "isReference (input nodeParent)" by code_simp+
  then show ?thesis
    by (simp add: createFieldNode.simps [of fuel] cyclic_key_reference_never_returns)
qed





lemma generateFields_skipID_no_filter:
  assumes "skipID options" and "generateFields table m field options = Inr inputFields"
  shows "\<forall>inp \<in> set inputFields. \<not> isUpdateFilterInputField inp"
  using assms
  by (auto simp: generateFields_def Let_def split: if_splits sum.splits)

lemma flatMapFields_skipID_no_filter:
  assumes "skipID options"
  shows "flatMapFields table m options fs = Inr inputFields
           \<Longrightarrow> \<forall>inp \<in> set inputFields. \<not> isUpdateFilterInputField inp"
proof (induction fs arbitrary: inputFields)
  case Nil
  then show ?case by simp
next
  case (Cons field fs)
  from Cons.prems obtain a b where
    a: "generateFields table m field options = Inr a"
    and b: "flatMapFields table m options fs = Inr b"
    and ab: "inputFields = a @ b"
    by (auto split: sum.splits)
  from generateFields_skipID_no_filter [OF assms a] Cons.IH [OF b] ab
  show ?case by auto
qed

lemma memorize_second_call:
  assumes store: "\<And>h t r. cache (store h t r) t = Some r"
    and first: "memorize cache store body t h = (Inr r, h1)"
  shows "memorize cache store body t h1 = (Inr r, h1)"
proof (cases "cache h t")
  case (Some r0)
  with first show ?thesis by (auto simp: memorize_def)
next
  case None
  with first obtain h0 where "body t h = (Inr r, h0)" and "h1 = store h0 t r"
    by (auto simp: memorize_def split: prod.splits sum.splits)
  with store show ?thesis by (simp add: memorize_def)
qed

lemma generate_call_twice:
  "generate_call t h = (Inr r, h1) \<Longrightarrow> generate_call t h1 = (Inr r, h1)"
  unfolding generate_call_def
  by (rule memorize_second_call) simp_all

lemma relationSide_access_fresh:
  assumes "relationSide_access m f h = (Some (r, sd), h1)"
  shows "\<exists>s. relationSide m f = Some s \<and> side s = sd \<and> r = nextRef h
             \<and> nextRef h1 = Suc (nextRef h)
             \<and> relationObjects h1 = (relationObjects h)(nextRef h \<mapsto> relation s)"
  using assms
  by (auto simp: relationSide_access_def new_Relation_def split: option.splits)

section \<open>Resolution of a relation from either of its fields\<close>

text \<open>
  Claim C2, as amended. Let \<open>A\<close> be a relation field of the root-entity type \<open>T\<close> with target
  \<open>U\<close> and no declared inverse, and \<open>B\<close> a relation field of the root-entity type \<open>U\<close> with
  target \<open>T\<close> whose \<^verbatim>\<open>inverseOf\<close> names \<open>A\<close> (the name resolves to \<open>A\<close> in \<open>T\<close>), and let \<open>B\<close>
  be the only field of \<open>U\<close> whose \<^verbatim>\<open>inverseOf\<close> resolves to \<open>A\<close>. Then the relation side
  resolved from \<open>A\<close> is the from-side and the one resolved from \<open>B\<close> is the to-side of one and
  the same relation, with \<open>fromType = T\<close>, \<open>fromField = A\<close>, \<open>toType = U\<close>, \<open>toField = B\<close>.
\<close>

theorem relation_same_from_both_fields:
  assumes relA: "isRelation (input A)" and relB: "isRelation (input B)"
    and rootT: "isRootEntityType (declaringType A)" and rootU: "isRootEntityType (declaringType B)"
    and typeA: "Field_type m A = declaringType B" and typeB: "Field_type m B = declaringType A"
    and noInv: "inverseOfFieldName (input A) = None"
    and invB: "inverseOfFieldName (input B) = Some (Field_name A)"
    and lookupA: "getField (declaringType A) (Field_name A) = Some A"
    and memB: "B \<in> set (Type_fields (declaringType B))"
    and onlyB: "\<forall>g \<in> set (Type_fields (declaringType B)). inverseOf m g = Some A \<longrightarrow> g = B"
  shows "relationSide m A
           = Some (fromSide \<lparr>fromType = declaringType A, fromField = A,
                             toType = declaringType B, toField = Some B\<rparr>)
       \<and> relationSide m B
           = Some (toSide \<lparr>fromType = declaringType A, fromField = A,
                           toType = declaringType B, toField = Some B\<rparr>)
       \<and> Field_relation m A
           = Some \<lparr>fromType = declaringType A, fromField = A,
                   toType = declaringType B, toField = Some B\<rparr>
       \<and> Field_relation m B
           = Some \<lparr>fromType = declaringType A, fromField = A,
                   toType = declaringType B, toField = Some B\<rparr>"
proof -
  have objT: "isObjectType (declaringType A)" and objU: "isObjectType (declaringType B)"
    using rootT rootU by (simp_all add: isObjectType_def isRootEntityType_def)
  have invOfB: "inverseOf m B = Some A"
    using invB typeB objT lookupA by (simp add: inverseOf_def)
  have invOfA: "inverseOf m A = None"
    using noInv by (simp add: inverseOf_def)
  have "find (\<lambda>field. inverseOf m field = Some A) (Type_fields (declaringType B)) = Some B"
    using memB invOfB onlyB by (rule find_unique)
  then have invFieldA: "inverseField m A = Some B"
    using typeA objU by (simp add: inverseField_def)
  have sideA: "relationSide m A
           = Some (fromSide \<lparr>fromType = declaringType A, fromField = A,
                             toType = declaringType B, toField = Some B\<rparr>)"
    using relA rootT rootU typeA invOfA invFieldA by (simp add: relationSide_def)
  have sideB: "relationSide m B
           = Some (toSide \<lparr>fromType = declaringType A, fromField = A,
                           toType = declaringType B, toField = Some B\<rparr>)"
    using relB rootT rootU typeB invOfB by (simp add: relationSide_def)
  show ?thesis
    using sideA sideB by (simp add: Field_relation_def fromSide_def toSide_def)
qed

theorem relation_same_from_both_fields_witness:
  "isRelation (input (fieldAt movieType 2)) \<and> isRelation (input (fieldAt actorType 2))
   \<and> Field_type movieModel (fieldAt movieType 2) = actorType
   \<and> Field_type movieModel (fieldAt actorType 2) = movieType
   \<and> inverseOfFieldName (input (fieldAt actorType 2)) = Some (Field_name (fieldAt movieType 2))
   \<and> Field_relation movieModel (fieldAt movieType 2)
        = Some \<lparr>fromType = movieType, fromField = fieldAt movieType 2,
                toType = actorType, toField = Some (fieldAt actorType 2)\<rparr>
   \<and> Field_relation movieModel (fieldAt actorType 2)
        = Some \<lparr>fromType = movieType, fromField = fieldAt movieType 2,
                toType = actorType, toField = Some (fieldAt actorType 2)\<rparr>"
proof -
  let ?A = "fieldAt movieType 2" and ?B = "fieldAt actorType 2"
  have relA: "isRelation (input ?A)" and relB: "isRelation (input ?B)" by code_simp+
  have rootT: "isRootEntityType (declaringType ?A)" and rootU: "isRootEntityType (declaringType ?B)"
    by code_simp+
  have declA: "declaringType ?A = movieType" and declB: "declaringType ?B = actorType"
    by (simp_all add: fieldAt_def)
  have typeA: "Field_type movieModel ?A = declaringType ?B"
    and typeB: "Field_type movieModel ?B = declaringType ?A" by code_simp+
  have noInv: "inverseOfFieldName (input ?A) = None" by code_simp
  have invB: "inverseOfFieldName (input ?B) = Some (Field_name ?A)" by code_simp
  have lookupA: "getField (declaringType ?A) (Field_name ?A) = Some ?A" by code_simp
  have memB: "?B \<in> set (Type_fields (declaringType ?B))" by code_simp
  have onlyB: "\<forall>g \<in> set (Type_fields (declaringType ?B)).
                 inverseOf movieModel g = Some ?A \<longrightarrow> g = ?B" by code_simp
  from relation_same_from_both_fields
         [OF relA relB rootT rootU typeA typeB noInv invB lookupA memB onlyB]
  show ?thesis
    using relA relB typeA typeB invB by (simp add: declA declB)
qed

text \<open>
  The claim as stated fails on \<^verbatim>\<open>Album.songs\<close> and \<^verbatim>\<open>Song.firstAlbum\<close>: both
  \<^verbatim>\<open>Song.album\<close> and \<^verbatim>\<open>Song.firstAlbum\<close> declare themselves inverse of \<^verbatim>\<open>Album.songs\<close>. The
  relation resolved from \<^verbatim>\<open>Album.songs\<close> takes the first of them, \<^verbatim>\<open>Song.album\<close>, as its
  \<^verbatim>\<open>toField\<close>; the relation resolved from \<^verbatim>\<open>Song.firstAlbum\<close> has \<^verbatim>\<open>Song.firstAlbum\<close> itself.
\<close>

theorem relation_first_claimant_counterexample:
  "isRelation (input albumSongs) \<and> isRelation (input songFirstAlbum)
   \<and> declaringType albumSongs = albumType \<and> declaringType songFirstAlbum = songType
   \<and> isRootEntityType albumType \<and> isRootEntityType songType
   \<and> Field_type albumModel albumSongs = songType
   \<and> Field_type albumModel songFirstAlbum = albumType
   \<and> inverseOfFieldName (input albumSongs) = None
   \<and> inverseOfFieldName (input songFirstAlbum) = Some (Field_name albumSongs)
   \<and> getField albumType (Field_name albumSongs) = Some albumSongs
   \<and> Field_relation albumModel albumSongs
       = Some \<lparr>fromType = albumType, fromField = albumSongs, toType = songType,
               toField = Some songAlbum\<rparr>
   \<and> Field_relation albumModel songFirstAlbum
       = Some \<lparr>fromType = albumType, fromField = albumSongs, toType = songType,
               toField = Some songFirstAlbum\<rparr>
   \<and> songAlbum \<noteq> songFirstAlbum
   \<and> Field_relation albumModel albumSongs \<noteq> Field_relation albumModel songFirstAlbum"
  by code_simp

section \<open>Validation of relations\<close>




text \<open>
  Claim C4, as amended. Let \<open>S\<close> be a relation field without a declared inverse whose target
  type is a valid root-entity type, and let two or more fields of that type have an
  \<^verbatim>\<open>inverseOf\<close> that resolves to \<open>S\<close>. Then \<^verbatim>\<open>validateRelation\<close> of \<open>S\<close> appends one error for
  each of these fields, in their order, each with the location of that field (after the
  message about the declaring type of \<open>S\<close>, when that is no root-entity type).
\<close>

theorem multiple_inverse_one_error_each:
  assumes rel: "isRelation (input S)"
    and noInv: "inverseOfFieldName (input S) = None"
    and valid: "hasValidType m S"
    and root: "isRootEntityType (Field_type m S)"
    and many: "length (filter (\<lambda>g. inverseOf m g = Some S) (Type_fields (Field_type m S))) \<ge> 2"
  shows "validateRelation m S ctx
           = (if isRootEntityType (declaringType S) then ctx
              else ctx @ [ValidationMessage_error
                     ''Relations can only be defined on root entity types. Consider using @reference instead.''
                     (astNode (input S))])
             @ map (\<lambda>g. ValidationMessage_error
                          (multipleInverseText m S
                             (filter (\<lambda>g. inverseOf m g = Some S) (Type_fields (Field_type m S))))
                          (astNode (input g)))
                 (filter (\<lambda>g. inverseOf m g = Some S) (Type_fields (Field_type m S)))"
proof -
  let ?inverseFields = "filter (\<lambda>g. inverseOf m g = Some S) (Type_fields (Field_type m S))"
  from many have ne: "?inverseFields \<noteq> []" and gt: "1 < length ?inverseFields" by auto
  show ?thesis
    using rel noInv valid root ne gt
    by (simp add: validateRelation_def isRootEntityType_def Let_def foldl_addMessage addMessage_def)
qed

theorem multiple_inverse_one_error_each_witness:
  "isRelation (input (fieldAt albumType 0))
   \<and> inverseOfFieldName (input (fieldAt albumType 0)) = None
   \<and> filter (\<lambda>g. inverseOf albumModel g = Some (fieldAt albumType 0)) (Type_fields songType)
       = [fieldAt songType 0, fieldAt songType 2]
   \<and> validateRelation albumModel (fieldAt albumType 0) []
       = [\<lparr>severity = ERROR,
           message = ''Multiple fields ('' @ quoted ''Song.album'' @ '', '' @ quoted ''Song.firstAlbum''
                       @ '') declare inverseOf to '' @ quoted ''Album.songs'' @ ''.'',
           location = Some 40\<rparr>,
          \<lparr>severity = ERROR,
           message = ''Multiple fields ('' @ quoted ''Song.album'' @ '', '' @ quoted ''Song.firstAlbum''
                       @ '') declare inverseOf to '' @ quoted ''Album.songs'' @ ''.'',
           location = Some 42\<rparr>]"
proof -
  let ?S = "fieldAt albumType 0"
  have rel: "isRelation (input ?S)" by code_simp
  have noInv: "inverseOfFieldName (input ?S) = None" by code_simp
  have valid: "hasValidType albumModel ?S" by code_simp
  have root: "isRootEntityType (Field_type albumModel ?S)" by code_simp
  have typeS: "Field_type albumModel ?S = songType" by code_simp
  have invFields: "filter (\<lambda>g. inverseOf albumModel g = Some ?S) (Type_fields songType)
                  = [fieldAt songType 0, fieldAt songType 2]" by code_simp
  have many: "length (filter (\<lambda>g. inverseOf albumModel g = Some ?S)
                        (Type_fields (Field_type albumModel ?S))) \<ge> 2"
    by (simp add: typeS invFields)
  have rootDecl: "isRootEntityType (declaringType ?S)" by code_simp
  have msgText: "multipleInverseText albumModel ?S [fieldAt songType 0, fieldAt songType 2]
                = ''Multiple fields ('' @ quoted ''Song.album'' @ '', '' @ quoted ''Song.firstAlbum''
                       @ '') declare inverseOf to '' @ quoted ''Album.songs'' @ ''.''"
    by code_simp
  have loc0: "astNode (input (fieldAt songType 0)) = Some 40"
    and loc2: "astNode (input (fieldAt songType 2)) = Some 42" by code_simp+
  from multiple_inverse_one_error_each [OF rel noInv valid root many, of "[]"]
  show ?thesis
    using rel noInv
    by (simp add: typeS invFields rootDecl msgText loc0 loc2 ValidationMessage_error_def)
qed

text \<open>
  The claim as stated fails on the relation field \<^verbatim>\<open>Playlist.entries\<close>: two fields of its
  target type declare themselves inverse of it, but the target type is no root-entity type, so
  \<^verbatim>\<open>validateRelation\<close> reports that and returns before it looks for inverse fields.
\<close>

theorem multiple_inverse_non_root_target_counterexample:
  "isRelation (input playlistEntries)
   \<and> inverseOfFieldName (input playlistEntries) = None
   \<and> Field_type playlistModel playlistEntries = entryType
   \<and> Type_fields entryType = [entryPlaylist, entryOrigin]
   \<and> inverseOf playlistModel entryPlaylist = Some playlistEntries
   \<and> inverseOf playlistModel entryOrigin = Some playlistEntries
   \<and> validateRelation playlistModel playlistEntries []
       = [\<lparr>severity = ERROR,
           message = ''Type '' @ quoted ''Entry''
                       @ '' cannot be used with @relation because it is not a root entity type.'',
           location = Some 90\<rparr>]"
  by code_simp

section \<open>Validation of field names\<close>

text \<open>
  Claim C10. \<^verbatim>\<open>validateName\<close> appends the diagnostic of the first rule that matches, in the
  order: empty name (error), leading underscore (error), embedded underscore (warning),
  initial letter not lowercase (warning); so it appends at most one message. In particular a
  name with an underscore that starts with an uppercase letter gets the warning about the
  underscore only.
\<close>

theorem validateName_first_match:
  "validateName f ctx = ctx @ nameDiagnostics f
   \<and> length (nameDiagnostics f) \<le> 1
   \<and> (includesUnderscore (Field_name f) \<and> startsWithUppercase (Field_name f)
        \<longrightarrow> validateName f ctx
            = ctx @ [ValidationMessage_warn ''Field names should not include underscores.''
                           (astNode (input f))])"
proof (intro conjI impI)
  show "validateName f ctx = ctx @ nameDiagnostics f"
    by (rule validateName_refines_rules)
  show "length (nameDiagnostics f) \<le> 1"
    by (simp add: nameDiagnostics_def split: option.split)
  assume "includesUnderscore (Field_name f) \<and> startsWithUppercase (Field_name f)"
  then show "validateName f ctx
            = ctx @ [ValidationMessage_warn ''Field names should not include underscores.''
                           (astNode (input f))]"
    using uppercase_not_underscore [of "Field_name f"]
    by (simp add: validateName_def Field_name_def addMessage_def)
qed

theorem validateName_first_match_witness:
  "includesUnderscore ''My_field'' \<and> startsWithUppercase ''My_field''
   \<and> validateName (fieldAt \<lparr>ident = Some 0, config = \<lparr>TypeConfig.name = ''T'', kind = ROOT_ENTITY, fieldConfigs = [plainField ''My_field'' ''String'' 7], keyFieldName = None\<rparr>\<rparr> 0) []
      = [\<lparr>severity = WARN, message = ''Field names should not include underscores.'', location = Some 7\<rparr>]"
  using validateName_first_match [of "fieldAt \<lparr>ident = Some 0, config = \<lparr>TypeConfig.name = ''T'', kind = ROOT_ENTITY, fieldConfigs = [plainField ''My_field'' ''String'' 7], keyFieldName = None\<rparr>\<rparr> 0" "[]"]
  by (simp add: includesUnderscore_def startsWithUppercase_def fieldAt_def plainField_def Field_name_def ValidationMessage_warn_def
        nameDiagnostics_def firstMatchingNameRule_def nameRuleOrder_def)

section \<open>Validation of calc mutations\<close>

text \<open>
  Claim C5, as amended. For a field with at least one declared calc-mutation operator,
  \<^verbatim>\<open>validateCalcMutations\<close> does the following. If the field is a list, it appends one error
  and checks nothing else. Otherwise, if no operator of the table supports the type of the
  field, it appends the one error that the type supports no operators and checks nothing else:
  it does not look at the declared operators, and does not throw for one that is absent from
  the table. Otherwise it visits the declared operators in order: an operator of the table
  that does not support the type gets an error that cites the operators supported for the
  type; the first operator that is absent from the table makes it throw, which ends the checks
  and is no collected diagnostic.
\<close>

theorem calc_mutation_checks:
  assumes declared: "Field_calcMutationOperators f \<noteq> []"
  shows "(isList (input f)
            \<longrightarrow> validateCalcMutations table m f ctx
                = (Inr (), ctx @ [ValidationMessage_error
                                    ''Calc mutations are not supported on list fields.''
                                    (astNode (input f))]))
       \<and> (\<not> isList (input f)
            \<and> (\<forall>op \<in> set table. Type_name (Field_type m f) \<notin> set (supportedTypes op))
            \<longrightarrow> validateCalcMutations table m f ctx
                = (Inr (), ctx @ [ValidationMessage_error
                                    (''Type '' @ quoted (Type_name (Field_type m f))
                                       @ '' does not support any calc mutation operators.'')
                                    (astNode (input f))]))
       \<and> (\<not> isList (input f)
            \<and> (\<exists>op \<in> set table. Type_name (Field_type m f) \<in> set (supportedTypes op))
            \<and> (\<forall>operator \<in> set (Field_calcMutationOperators f). isKnownOperator table operator)
            \<longrightarrow> validateCalcMutations table m f ctx
                = (Inr (),
                   ctx @ map (unsupportedOperatorMessage table m f)
                           (filter (\<lambda>operator. \<not> supportsType table operator
                                                   (Type_name (Field_type m f)))
                              (Field_calcMutationOperators f))))
       \<and> (\<not> isList (input f)
            \<and> (\<exists>op \<in> set table. Type_name (Field_type m f) \<in> set (supportedTypes op))
            \<and> Field_calcMutationOperators f = known @ unknown # rest
            \<and> (\<forall>operator \<in> set known. isKnownOperator table operator)
            \<and> \<not> isKnownOperator table unknown
            \<longrightarrow> validateCalcMutations table m f ctx
                = (Inl (UnknownCalcMutationOperator unknown),
                   ctx @ map (unsupportedOperatorMessage table m f)
                           (filter (\<lambda>operator. \<not> supportsType table operator
                                                   (Type_name (Field_type m f)))
                              known)))"
proof (intro conjI impI)
  assume "isList (input f)"
  with declared show "validateCalcMutations table m f ctx
                = (Inr (), ctx @ [ValidationMessage_error
                                    ''Calc mutations are not supported on list fields.''
                                    (astNode (input f))])"
    by (simp add: validateCalcMutations_def addMessage_def)
next
  assume a: "\<not> isList (input f)
            \<and> (\<forall>op \<in> set table. Type_name (Field_type m f) \<notin> set (supportedTypes op))"
  then have "filter (\<lambda>op. Type_name (Field_type m f) \<in> set (supportedTypes op)) table = []"
    by (simp add: filter_empty_conv)
  with a declared show "validateCalcMutations table m f ctx
                = (Inr (), ctx @ [ValidationMessage_error
                                    (''Type '' @ quoted (Type_name (Field_type m f))
                                       @ '' does not support any calc mutation operators.'')
                                    (astNode (input f))])"
    by (simp add: validateCalcMutations_def addMessage_def)
next
  assume a: "\<not> isList (input f)
            \<and> (\<exists>op \<in> set table. Type_name (Field_type m f) \<in> set (supportedTypes op))
            \<and> (\<forall>operator \<in> set (Field_calcMutationOperators f). isKnownOperator table operator)"
  then have ne: "filter (\<lambda>op. Type_name (Field_type m f) \<in> set (supportedTypes op)) table \<noteq> []"
    by (simp add: filter_empty_conv)
  from a have known: "\<forall>operator \<in> set (Field_calcMutationOperators f). isKnownOperator table operator"
    by simp
  from validateOperators_known_prefix [OF known, of m f "[]" ctx]
  have "validateOperators table m f (Field_calcMutationOperators f) ctx
          = (Inr (),
             ctx @ map (unsupportedOperatorMessage table m f)
                     (filter (\<lambda>operator. \<not> supportsType table operator (Type_name (Field_type m f)))
                        (Field_calcMutationOperators f)))"
    by simp
  with a ne declared show "validateCalcMutations table m f ctx
                = (Inr (),
                   ctx @ map (unsupportedOperatorMessage table m f)
                           (filter (\<lambda>operator. \<not> supportsType table operator
                                                   (Type_name (Field_type m f)))
                              (Field_calcMutationOperators f)))"
    by (simp add: validateCalcMutations_def)
next
  assume a: "\<not> isList (input f)
            \<and> (\<exists>op \<in> set table. Type_name (Field_type m f) \<in> set (supportedTypes op))
            \<and> Field_calcMutationOperators f = known @ unknown # rest
            \<and> (\<forall>operator \<in> set known. isKnownOperator table operator)
            \<and> \<not> isKnownOperator table unknown"
  then have ne: "filter (\<lambda>op. Type_name (Field_type m f) \<in> set (supportedTypes op)) table \<noteq> []"
    by (simp add: filter_empty_conv)
  from a have known: "\<forall>operator \<in> set known. isKnownOperator table operator"
    and unknown: "find (\<lambda>op. CalcMutationOperator.name op = unknown) table = None"
    and ops: "Field_calcMutationOperators f = known @ unknown # rest"
    by (simp_all add: find_unknown)
  from validateOperators_known_prefix [OF known, of m f "unknown # rest" ctx] unknown
  have "validateOperators table m f (known @ unknown # rest) ctx
          = (Inl (UnknownCalcMutationOperator unknown),
             ctx @ map (unsupportedOperatorMessage table m f)
                     (filter (\<lambda>operator. \<not> supportsType table operator (Type_name (Field_type m f)))
                        known))"
    by simp
  with a ne show "validateCalcMutations table m f ctx
                = (Inl (UnknownCalcMutationOperator unknown),
                   ctx @ map (unsupportedOperatorMessage table m f)
                           (filter (\<lambda>operator. \<not> supportsType table operator
                                                   (Type_name (Field_type m f)))
                              known))"
    by (simp add: validateCalcMutations_def ops)
qed

theorem calc_mutation_checks_witness:
  "validateCalcMutations exampleOperators orderModel orderTags []
     = (Inr (), [\<lparr>severity = ERROR, message = ''Calc mutations are not supported on list fields.'',
                  location = Some 63\<rparr>])
   \<and> validateCalcMutations exampleOperators orderModel orderPaid []
     = (Inr (), [\<lparr>severity = ERROR,
                  message = ''Type '' @ quoted ''Boolean''
                              @ '' does not support any calc mutation operators.'',
                  location = Some 66\<rparr>])
   \<and> validateCalcMutations exampleOperators orderModel orderNote []
     = (Inr (), [unsupportedOperatorMessage exampleOperators orderModel orderNote ''ADD'',
                 unsupportedOperatorMessage exampleOperators orderModel orderNote ''MULTIPLY''])
   \<and> message (unsupportedOperatorMessage exampleOperators orderModel orderNote ''ADD'')
     = ''Calc mutation operator '' @ quoted ''ADD'' @ '' is not supported on type ''
         @ quoted ''String'' @ '' (supported operators: '' @ quoted ''APPEND'' @ '').''
   \<and> validateCalcMutations exampleOperators orderModel orderTotal []
     = (Inl (UnknownCalcMutationOperator ''SCALE''),
        [unsupportedOperatorMessage exampleOperators orderModel orderTotal ''APPEND''])"
proof -
  have h_tags: "Field_calcMutationOperators orderTags \<noteq> []" "isList (input orderTags)"
    "astNode (input orderTags) = Some 63" by code_simp+
  have h_paid: "Field_calcMutationOperators orderPaid \<noteq> []" "\<not> isList (input orderPaid)"
    "\<forall>op \<in> set exampleOperators.
       Type_name (Field_type orderModel orderPaid) \<notin> set (supportedTypes op)"
    "Type_name (Field_type orderModel orderPaid) = ''Boolean''"
    "astNode (input orderPaid) = Some 66" by code_simp+
  have h_note: "Field_calcMutationOperators orderNote \<noteq> []" "\<not> isList (input orderNote)"
    "\<exists>op \<in> set exampleOperators.
       Type_name (Field_type orderModel orderNote) \<in> set (supportedTypes op)"
    "\<forall>operator \<in> set (Field_calcMutationOperators orderNote).
       isKnownOperator exampleOperators operator"
    "filter (\<lambda>operator. \<not> supportsType exampleOperators operator
                            (Type_name (Field_type orderModel orderNote)))
       (Field_calcMutationOperators orderNote) = [''ADD'', ''MULTIPLY'']" by code_simp+
  have h_total: "Field_calcMutationOperators orderTotal \<noteq> []" "\<not> isList (input orderTotal)"
    "\<exists>op \<in> set exampleOperators.
       Type_name (Field_type orderModel orderTotal) \<in> set (supportedTypes op)"
    "Field_calcMutationOperators orderTotal = [''APPEND''] @ ''SCALE'' # [''ADD'']"
    "\<forall>operator \<in> set [''APPEND'']. isKnownOperator exampleOperators operator"
    "\<not> isKnownOperator exampleOperators ''SCALE''"
    "filter (\<lambda>operator. \<not> supportsType exampleOperators operator
                            (Type_name (Field_type orderModel orderTotal)))
       [''APPEND''] = [''APPEND'']" by code_simp+
  have text_ADD: "message (unsupportedOperatorMessage exampleOperators orderModel orderNote ''ADD'')
     = ''Calc mutation operator '' @ quoted ''ADD'' @ '' is not supported on type ''
         @ quoted ''String'' @ '' (supported operators: '' @ quoted ''APPEND'' @ '').''"
    by code_simp
  from calc_mutation_checks [OF h_tags(1), of exampleOperators orderModel "[]"]
       calc_mutation_checks [OF h_paid(1), of exampleOperators orderModel "[]"]
       calc_mutation_checks [OF h_note(1), of exampleOperators orderModel "[]"]
       calc_mutation_checks [OF h_total(1), of exampleOperators orderModel "[]" "[''APPEND'']"
                               "''SCALE''" "[''ADD'']"]
  show ?thesis
    using h_tags h_paid h_note h_total text_ADD
    by (simp add: ValidationMessage_error_def)
qed

text \<open>
  The claim as stated fails on the field \<^verbatim>\<open>Order.paid\<close> of type \<^verbatim>\<open>Boolean\<close>, which declares
  the operators \<^verbatim>\<open>ADD\<close> (in the table, not for \<^verbatim>\<open>Boolean\<close>) and \<^verbatim>\<open>TOGGLE\<close> (not in the
  table): no operator of the table supports \<^verbatim>\<open>Boolean\<close>, so validation returns after one
  error about the type, with no error for \<^verbatim>\<open>ADD\<close> and without throwing for \<^verbatim>\<open>TOGGLE\<close>.
\<close>

theorem calc_mutation_early_return_counterexample:
  "Field_calcMutationOperators orderPaid = [''ADD'', ''TOGGLE'']
   \<and> \<not> isList (input orderPaid)
   \<and> Type_name (Field_type orderModel orderPaid) = ''Boolean''
   \<and> isKnownOperator exampleOperators ''ADD''
   \<and> \<not> supportsType exampleOperators ''ADD'' ''Boolean''
   \<and> \<not> isKnownOperator exampleOperators ''TOGGLE''
   \<and> validateCalcMutations exampleOperators orderModel orderPaid []
       = (Inr (),
          [\<lparr>severity = ERROR,
            message = ''Type '' @ quoted ''Boolean'' @ '' does not support any calc mutation operators.'',
            location = Some 66\<rparr>])"
  by code_simp

section \<open>Compilation of field access\<close>




text \<open>
  Claim C6, as amended. For a system field named \<^verbatim>\<open>id\<close> that is no list, no relation and no
  reference: declared on a root-entity type it compiles to the identity-accessor node
  \<^verbatim>\<open>RootEntityIDQueryNode\<close>; declared on a child-entity type it compiles to the ordinary read
  of the stored field.
\<close>

theorem identity_field_access:
  assumes sys: "isSystemField (input f)"
    and named: "Field_name f = ID_FIELD"
    and notList: "\<not> isList (input f)"
    and notRel: "\<not> isRelation (input f)"
    and notRef: "\<not> isReference (input f)"
  shows "(isRootEntityType (declaringType f)
            \<longrightarrow> createFieldNode fuel m f sourceNode = Some (Inr (RootEntityIDQueryNode sourceNode)))
       \<and> (isChildEntityType (declaringType f) \<and> \<not> isEntityExtensionType (Field_type m f)
            \<longrightarrow> createFieldNode fuel m f sourceNode = Some (Inr (FieldQueryNode sourceNode f)))"
  using assms
  by (simp add: createFieldNode.simps [of fuel] isRootEntityType_def isChildEntityType_def)

theorem identity_field_access_witness:
  "isSystemField (input (fieldAt customerType 0)) \<and> Field_name (fieldAt customerType 0) = ''id''
   \<and> isRootEntityType (declaringType (fieldAt customerType 0))
   \<and> createFieldNode 1 orderModel (fieldAt customerType 0) (VariableQueryNode ''c'')
       = Some (Inr (RootEntityIDQueryNode (VariableQueryNode ''c'')))
   \<and> isSystemField (input (fieldAt orderItemType 0)) \<and> Field_name (fieldAt orderItemType 0) = ''id''
   \<and> isChildEntityType (declaringType (fieldAt orderItemType 0))
   \<and> createFieldNode 1 orderModel (fieldAt orderItemType 0) (VariableQueryNode ''i'')
       = Some (Inr (FieldQueryNode (VariableQueryNode ''i'') (fieldAt orderItemType 0)))"
proof -
  let ?c = "fieldAt customerType 0" and ?i = "fieldAt orderItemType 0"
  have c: "isSystemField (input ?c)" "Field_name ?c = ID_FIELD" "\<not> isList (input ?c)"
    "\<not> isRelation (input ?c)" "\<not> isReference (input ?c)" by code_simp+
  have i: "isSystemField (input ?i)" "Field_name ?i = ID_FIELD" "\<not> isList (input ?i)"
    "\<not> isRelation (input ?i)" "\<not> isReference (input ?i)" by code_simp+
  have rootC: "isRootEntityType (declaringType ?c)" by code_simp
  have childI: "isChildEntityType (declaringType ?i)"
    and plainI: "\<not> isEntityExtensionType (Field_type orderModel ?i)" by code_simp+
  from identity_field_access [OF c, of 1 orderModel "VariableQueryNode ''c''"]
       identity_field_access [OF i, of 1 orderModel "VariableQueryNode ''i''"]
  show ?thesis
    using c i rootC childI plainI by (simp add: ID_FIELD_def)
qed

text \<open>
  The claim as stated fails on the system field \<^verbatim>\<open>id\<close> of the child-entity type
  \<^verbatim>\<open>OrderItem\<close>: its read access is the ordinary field node.
\<close>

theorem identity_field_child_entity_counterexample:
  "isSystemField (input (fieldAt orderItemType 0)) \<and> Field_name (fieldAt orderItemType 0) = ''id''
   \<and> \<not> isList (input (fieldAt orderItemType 0)) \<and> \<not> isRelation (input (fieldAt orderItemType 0))
   \<and> \<not> isReference (input (fieldAt orderItemType 0))
   \<and> isChildEntityType (declaringType (fieldAt orderItemType 0))
   \<and> createFieldNode 1 orderModel (fieldAt orderItemType 0) (VariableQueryNode ''i'')
       \<noteq> Some (Inr (RootEntityIDQueryNode (VariableQueryNode ''i'')))
   \<and> createFieldNode 1 orderModel (fieldAt orderItemType 0) (VariableQueryNode ''i'')
       = Some (Inr (FieldQueryNode (VariableQueryNode ''i'') (fieldAt orderItemType 0)))"
  by code_simp

section \<open>Update input fields and their generation\<close>

text \<open>
  Claim C7. The list-typed setter input fields of an update input type are the objects of
  \<^verbatim>\<open>BasicListUpdateInputField\<close> (generated for a list field of a scalar or enum type) and of
  \<^verbatim>\<open>UpdateValueObjectListInputField\<close> (generated for a list field of a value-object type). For
  both classes the input value \<^verbatim>\<open>null\<close> is coerced to the empty list, so the set-field node
  carries the empty list and never \<^verbatim>\<open>null\<close>, and collecting the affected fields for
  \<^verbatim>\<open>null\<close> adds the field itself.
\<close>

theorem list_setter_null_coercion:
  "BasicListUpdateInputField_coerceValue Null = Array []
   \<and> BasicListUpdateInputField_getProperties field Null
       = [SetFieldQueryNode field (LiteralQueryNode (Array []))]
   \<and> BasicListUpdateInputField_collectAffectedFields field Null affected = insert field affected
   \<and> UpdateValueObjectListInputField_coerceValue prepareValue n Null = Inr (Array [])
   \<and> UpdateValueObjectListInputField_getProperties prepareValue field Null
       = Inr [SetFieldQueryNode field (LiteralQueryNode (Array []))]
   \<and> UpdateValueObjectListInputField_collectAffectedFields collect field Null affected
       = (Inr (), insert field affected)
   \<and> (\<not> isSystemField (input field) \<and> isList (input field)
        \<and> (isScalarType (Field_type m field) \<or> isEnumType (Field_type m field))
        \<longrightarrow> generateFields table m field options
            = Inr [BasicListUpdateInputField field
                     (GraphQLList (GraphQLNonNull
                        (if isEnumType (Field_type m field)
                         then GeneratedEnumType (Field_type m field)
                         else GraphQLScalarTypeOf (Field_type m field))))])
   \<and> (\<not> isSystemField (input field) \<and> isList (input field)
        \<and> isValueObjectType (Field_type m field)
        \<longrightarrow> generateFields table m field options
            = Inr [UpdateValueObjectListInputField field
                     (CreateObjectInputType (Field_type m field))])"
proof (intro conjI impI)
  show "BasicListUpdateInputField_coerceValue Null = Array []"
    by (simp add: BasicListUpdateInputField_coerceValue_def BasicUpdateInputField_coerceValue_def)
  then show "BasicListUpdateInputField_getProperties field Null
       = [SetFieldQueryNode field (LiteralQueryNode (Array []))]"
    by (simp add: BasicListUpdateInputField_getProperties_def)
  show "BasicListUpdateInputField_collectAffectedFields field Null affected = insert field affected"
    by (simp add: BasicListUpdateInputField_collectAffectedFields_def
          BasicUpdateInputField_collectAffectedFields_def)
  show coerce: "UpdateValueObjectListInputField_coerceValue prepareValue n Null = Inr (Array [])" for n
    by (simp add: UpdateValueObjectListInputField_coerceValue_def BasicUpdateInputField_coerceValue_def)
  show "UpdateValueObjectListInputField_getProperties prepareValue field Null
       = Inr [SetFieldQueryNode field (LiteralQueryNode (Array []))]"
    by (simp add: UpdateValueObjectListInputField_getProperties_def coerce)
  show "UpdateValueObjectListInputField_collectAffectedFields collect field Null affected
       = (Inr (), insert field affected)"
    by (simp add: UpdateValueObjectListInputField_collectAffectedFields_def
          BasicUpdateInputField_collectAffectedFields_def)
next
  assume "\<not> isSystemField (input field) \<and> isList (input field)
        \<and> (isScalarType (Field_type m field) \<or> isEnumType (Field_type m field))"
  then show "generateFields table m field options
            = Inr [BasicListUpdateInputField field
                     (GraphQLList (GraphQLNonNull
                        (if isEnumType (Field_type m field)
                         then GeneratedEnumType (Field_type m field)
                         else GraphQLScalarTypeOf (Field_type m field))))]"
    by (simp add: generateFields_def Let_def)
next
  assume "\<not> isSystemField (input field) \<and> isList (input field)
        \<and> isValueObjectType (Field_type m field)"
  then show "generateFields table m field options
            = Inr [UpdateValueObjectListInputField field
                     (CreateObjectInputType (Field_type m field))]"
    by (auto simp: generateFields_def Let_def isScalarType_def isEnumType_def isValueObjectType_def)
qed

theorem list_setter_null_coercion_witness:
  "\<not> isSystemField (input orderTags) \<and> isList (input orderTags)
   \<and> isScalarType (Field_type orderModel orderTags)
   \<and> generateFields exampleOperators orderModel orderTags defaultOptions
       = Inr [BasicListUpdateInputField orderTags
                (GraphQLList (GraphQLNonNull (GraphQLScalarTypeOf stringType)))]
   \<and> BasicListUpdateInputField_getProperties orderTags Null
       = [SetFieldQueryNode orderTags (LiteralQueryNode (Array []))]
   \<and> orderTags \<in> BasicListUpdateInputField_collectAffectedFields orderTags Null {}
   \<and> \<not> isSystemField (input customerAddresses) \<and> isList (input customerAddresses)
   \<and> isValueObjectType (Field_type orderModel customerAddresses)
   \<and> generateFields exampleOperators orderModel customerAddresses defaultOptions
       = Inr [UpdateValueObjectListInputField customerAddresses (CreateObjectInputType addressType)]
   \<and> UpdateValueObjectListInputField_coerceValue Inr ''addresses'' Null = Inr (Array [])
   \<and> UpdateValueObjectListInputField_collectAffectedFields (\<lambda>v s. (Inr (), s))
         customerAddresses Null {}
       = (Inr (), {customerAddresses})"
proof -
  have tags: "\<not> isSystemField (input orderTags)" "isList (input orderTags)"
    "isScalarType (Field_type orderModel orderTags)"
    "\<not> isEnumType (Field_type orderModel orderTags)" by code_simp+
  have gen: "generateFields exampleOperators orderModel orderTags defaultOptions
       = Inr [BasicListUpdateInputField orderTags
                (GraphQLList (GraphQLNonNull (GraphQLScalarTypeOf stringType)))]" by code_simp
  have addr: "\<not> isSystemField (input customerAddresses)" "isList (input customerAddresses)"
    "isValueObjectType (Field_type orderModel customerAddresses)"
    "Field_type orderModel customerAddresses = addressType" by code_simp+
  from list_setter_null_coercion [of orderTags "{}" Inr "''addresses''" "\<lambda>v s. (Inr (), s)"
         orderModel exampleOperators defaultOptions]
       list_setter_null_coercion [of customerAddresses "{}" Inr "''addresses''" "\<lambda>v s. (Inr (), s)"
         orderModel exampleOperators defaultOptions]
  show ?thesis
    using tags gen addr by simp
qed

text \<open>
  Claim C8. The input field generated for the system identity field is an
  \<^verbatim>\<open>UpdateFilterInputField\<close>; for every input value and every node of the current entity it
  yields no set-field node, and it leaves the set of affected fields as it is. With
  \<^verbatim>\<open>skipID\<close>, as in the update-all shape, \<^verbatim>\<open>generateFields\<close> yields no input field for a
  system field, and the update-all shape of a type contains no filter input field.
\<close>

theorem identity_input_filter_only:
  "UpdateFilterInputField_getProperties v currentEntityNode = []
   \<and> UpdateFilterInputField_collectAffectedFields v affected = affected
   \<and> (isSystemField (input field) \<and> Field_name field = ID_FIELD
        \<and> (isRootEntityType (declaringType field) \<or> isChildEntityType (declaringType field))
        \<and> \<not> skipID options
        \<longrightarrow> generateFields table m field options
            = Inr [UpdateFilterInputField field (GraphQLNonNull GraphQLID)])
   \<and> (isSystemField (input field) \<and> skipID options
        \<longrightarrow> generateFields table m field options = Inr [])
   \<and> (inputFieldsOf table m (generateUpdateAllRootEntitiesInputType t) = Inr inputFields
        \<longrightarrow> (\<forall>inp \<in> set inputFields. \<not> isUpdateFilterInputField inp))"
proof (intro conjI impI)
  show "UpdateFilterInputField_getProperties v currentEntityNode = []"
    by (simp add: UpdateFilterInputField_getProperties_def)
  show "UpdateFilterInputField_collectAffectedFields v affected = affected"
    by (simp add: UpdateFilterInputField_collectAffectedFields_def)
next
  assume "isSystemField (input field) \<and> Field_name field = ID_FIELD
        \<and> (isRootEntityType (declaringType field) \<or> isChildEntityType (declaringType field))
        \<and> \<not> skipID options"
  then show "generateFields table m field options
            = Inr [UpdateFilterInputField field (GraphQLNonNull GraphQLID)]"
    by (simp add: generateFields_def)
next
  assume "isSystemField (input field) \<and> skipID options"
  then show "generateFields table m field options = Inr []"
    by (simp add: generateFields_def)
next
  assume "inputFieldsOf table m (generateUpdateAllRootEntitiesInputType t) = Inr inputFields"
  then have "flatMapFields table m \<lparr>skipID = True, skipRelations = True\<rparr> (Type_fields t)
               = Inr inputFields"
    by (simp add: generateUpdateAllRootEntitiesInputType_def)
  then show "\<forall>inp \<in> set inputFields. \<not> isUpdateFilterInputField inp"
    by (intro flatMapFields_skipID_no_filter [where options = "\<lparr>skipID = True, skipRelations = True\<rparr>"]) simp_all
qed

theorem identity_input_filter_only_witness:
  "isSystemField (input customerId) \<and> Field_name customerId = ''id''
   \<and> isRootEntityType (declaringType customerId)
   \<and> generateFields exampleOperators orderModel customerId defaultOptions
       = Inr [UpdateFilterInputField customerId (GraphQLNonNull GraphQLID)]
   \<and> UpdateFilterInputField_getProperties (String ''4711'') (VariableQueryNode ''customer'') = []
   \<and> UpdateFilterInputField_collectAffectedFields (String ''4711'') {customerName} = {customerName}
   \<and> generateFields exampleOperators orderModel customerId \<lparr>skipID = True, skipRelations = True\<rparr>
       = Inr []
   \<and> inputFieldsOf exampleOperators orderModel (generateUpdateAllRootEntitiesInputType customerType)
       = Inr [BasicUpdateInputField customerName (GraphQLScalarTypeOf stringType),
              UpdateValueObjectListInputField customerAddresses (CreateObjectInputType addressType)]
   \<and> \<not> isUpdateFilterInputField (BasicUpdateInputField customerName (GraphQLScalarTypeOf stringType))
   \<and> \<not> isUpdateFilterInputField
          (UpdateValueObjectListInputField customerAddresses (CreateObjectInputType addressType))"
proof -
  have idf: "isSystemField (input customerId)" "Field_name customerId = ID_FIELD"
    "isRootEntityType (declaringType customerId)" "\<not> skipID defaultOptions"
    "skipID \<lparr>skipID = True, skipRelations = True\<rparr>" by code_simp+
  have shape: "inputFieldsOf exampleOperators orderModel
                 (generateUpdateAllRootEntitiesInputType customerType)
       = Inr [BasicUpdateInputField customerName (GraphQLScalarTypeOf stringType),
              UpdateValueObjectListInputField customerAddresses (CreateObjectInputType addressType)]"
    by code_simp
  from identity_input_filter_only
         [of "String ''4711''" "VariableQueryNode ''customer''" "{customerName}" customerId
             defaultOptions exampleOperators orderModel customerType
             "[BasicUpdateInputField customerName (GraphQLScalarTypeOf stringType),
               UpdateValueObjectListInputField customerAddresses (CreateObjectInputType addressType)]"]
       identity_input_filter_only
         [of "String ''4711''" "VariableQueryNode ''customer''" "{customerName}" customerId
             "\<lparr>skipID = True, skipRelations = True\<rparr>" exampleOperators orderModel customerType
             "[]"]
  show ?thesis
    using idf shape by (simp add: ID_FIELD_def)
qed

section \<open>Identity of derived objects\<close>

text \<open>
  Claim C9, as amended. The getters of a field are not cached. An access to the relation side
  (or the relation) of a relation field builds a new \<^verbatim>\<open>Relation\<close> object each time, so two
  successive accesses return two distinct objects, with equal components. An access to the
  inverse field looks the field up among the fields of the target type, and an access to the
  permission profile looks the profile up among the profiles of the model: what they return is
  an object of the model, not a new one. Only the compiled update input shape is memoized:
  a repeated request for the same type returns the identical object and creates nothing.
\<close>

theorem derived_objects_identity:
  "(relationSide_access m f h = (Some (r, sd), h1)
      \<longrightarrow> (\<exists>r2 h2. relationSide_access m f h1 = (Some (r2, sd), h2)
                    \<and> r2 \<noteq> r
                    \<and> relationObjects h2 r \<noteq> None
                    \<and> relationObjects h2 r2 = relationObjects h2 r))
   \<and> (inverseField m f = Some g \<longrightarrow> g \<in> set (Type_fields (Field_type m f)))
   \<and> (permissionProfile m f = Some p \<longrightarrow> p < length (permissionProfiles m))
   \<and> (generate_call t h = (Inr u, h1) \<longrightarrow> generate_call t h1 = (Inr u, h1))"
proof (intro conjI impI)
  assume first: "relationSide_access m f h = (Some (r, sd), h1)"
  from relationSide_access_fresh [OF first] obtain s where
    s: "relationSide m f = Some s" "side s = sd" "r = nextRef h" "nextRef h1 = Suc (nextRef h)"
      "relationObjects h1 = (relationObjects h)(nextRef h \<mapsto> relation s)"
    by blast
  let ?h2 = "h1\<lparr>nextRef := Suc (nextRef h1),
                  relationObjects := (relationObjects h1)(nextRef h1 \<mapsto> relation s)\<rparr>"
  have "relationSide_access m f h1 = (Some (nextRef h1, sd), ?h2)"
    using s by (simp add: relationSide_access_def new_Relation_def)
  moreover have "nextRef h1 \<noteq> r" using s by simp
  moreover have "relationObjects ?h2 r \<noteq> None" using s by simp
  moreover have "relationObjects ?h2 (nextRef h1) = relationObjects ?h2 r" using s by simp
  ultimately show "\<exists>r2 h2. relationSide_access m f h1 = (Some (r2, sd), h2)
                    \<and> r2 \<noteq> r
                    \<and> relationObjects h2 r \<noteq> None
                    \<and> relationObjects h2 r2 = relationObjects h2 r"
    by blast
next
  assume "inverseField m f = Some g"
  then have "find (\<lambda>field. inverseOf m field = Some f) (Type_fields (Field_type m f)) = Some g"
    by (simp add: inverseField_def split: if_splits)
  then show "g \<in> set (Type_fields (Field_type m f))"
    by (auto simp: find_Some_iff)
next
  have indexOf_less: "indexOf x xs = Some i \<Longrightarrow> i < length xs" for x :: string and xs i
    by (induction xs arbitrary: i) (auto split: if_splits option.splits)
  assume "permissionProfile m f = Some p"
  then show "p < length (permissionProfiles m)"
    by (auto simp: permissionProfile_def getPermissionProfile_def indexOf_less
             split: option.splits)
next
  assume "generate_call t h = (Inr u, h1)"
  then show "generate_call t h1 = (Inr u, h1)"
    by (rule generate_call_twice)
qed

theorem derived_objects_identity_witness:
  "fst (relationSide_access movieModel movieActors emptyHeap) = Some (0, FROM_SIDE)
   \<and> (\<exists>r2 h2. relationSide_access movieModel movieActors
                  (snd (relationSide_access movieModel movieActors emptyHeap))
                = (Some (r2, FROM_SIDE), h2)
              \<and> r2 \<noteq> 0 \<and> relationObjects h2 0 \<noteq> None
              \<and> relationObjects h2 r2 = relationObjects h2 0)
   \<and> inverseField movieModel movieActors = Some actorMovies
   \<and> actorMovies \<in> set (Type_fields (Field_type movieModel movieActors))
   \<and> permissionProfile movieModel movieTitle = Some 1
   \<and> 1 < length (permissionProfiles movieModel)
   \<and> fst (generate_call movieType emptyHeap) = Inr 0
   \<and> fst (generate_call movieType (snd (generate_call movieType emptyHeap))) = Inr 0"
proof -
  have rs: "relationSide movieModel movieActors
          = Some (fromSide \<lparr>fromType = movieType, fromField = movieActors, toType = actorType,
                            toField = Some (fieldAt actorType 2)\<rparr>)"
    by code_simp
  then have first: "fst (relationSide_access movieModel movieActors emptyHeap) = Some (0, FROM_SIDE)"
    by (simp add: relationSide_access_def new_Relation_def emptyHeap_def fromSide_def)
  then have first': "relationSide_access movieModel movieActors emptyHeap
                       = (Some (0, FROM_SIDE), snd (relationSide_access movieModel movieActors emptyHeap))"
    by (metis prod.collapse)
  have inv: "inverseField movieModel movieActors = Some actorMovies" by code_simp
  have prof: "permissionProfile movieModel movieTitle = Some 1" by code_simp
  have rootM: "isRootEntityType movieType" by code_simp
  then have gen: "fst (generate_call movieType emptyHeap) = Inr 0"
    by (simp add: generate_call_def memorize_def emptyHeap_def generateForRootEntityType_call_def
          new_UpdateObjectInputType_def)
  then have gen': "generate_call movieType emptyHeap
                     = (Inr 0, snd (generate_call movieType emptyHeap))"
    by (metis prod.collapse)
  from derived_objects_identity
         [of movieModel movieActors emptyHeap 0 FROM_SIDE
             "snd (relationSide_access movieModel movieActors emptyHeap)" actorMovies 1
             movieType 0]
       derived_objects_identity
         [of movieModel movieTitle emptyHeap 0 FROM_SIDE
             "snd (generate_call movieType emptyHeap)" actorMovies 1 movieType 0]
  show ?thesis
    using first first' inv prof gen gen' by simp
qed

text \<open>
  The claim as stated fails on the relation field \<^verbatim>\<open>Movie.actors\<close>: the first access to its
  relation side returns the object with reference 0, the second one the object with
  reference 1, and likewise for its relation.
\<close>

theorem relation_side_not_cached_counterexample:
  "fst (relationSide_access movieModel movieActors emptyHeap) = Some (0, FROM_SIDE)
   \<and> fst (relationSide_access movieModel movieActors
             (snd (relationSide_access movieModel movieActors emptyHeap)))
       = Some (1, FROM_SIDE)
   \<and> fst (relation_access movieModel movieActors emptyHeap) = Some 0
   \<and> fst (relation_access movieModel movieActors
             (snd (relation_access movieModel movieActors emptyHeap)))
       = Some 1"
proof -
  have "relationSide movieModel movieActors
          = Some (fromSide \<lparr>fromType = movieType, fromField = movieActors, toType = actorType,
                            toField = Some (fieldAt actorType 2)\<rparr>)"
    by code_simp
  then show ?thesis
    by (simp add: relation_access_def relationSide_access_def new_Relation_def emptyHeap_def
          fromSide_def)
qed

end
